theory Spec2Isabelle
  imports Complex_Main
begin

section \<open>The trading engine utilities (utils/tradingEngine)\<close>

text \<open>
  The module exports object literals (\<open>marketStatus\<close>, \<open>riskManagement\<close>, ...)
  whose members are arrow functions. Each member is embedded as a HOL function of the
  same name.

  Numbers. A JavaScript number is embedded as an exact rational (\<^typ>\<open>rat\<close>). In
  this first part sums, products, quotients by a non-zero divisor, \<open>Math.abs\<close> and
  \<open>Math.floor\<close> are the exact operations: the amounts are read as the decimal
  numbers they stand for, and the rounding of IEEE doubles is left out. The position
  sizer and the profit-and-loss function, whose results can depend on that rounding, are
  embedded again with every operation rounded to the nearest double in the section on
  double-precision arithmetic. An argument that may be absent (\<open>undefined\<close>,
  \<open>null\<close>) or not a number is a \<^typ>\<open>rat option\<close>, with \<open>None\<close> for the
  absent value.
\<close>

subsection \<open>Truthiness of a numeric argument\<close>

text \<open>\<open>!x\<close>: true for \<open>undefined\<close>, \<open>null\<close> and for the number zero.\<close>

fun js_not :: "rat option \<Rightarrow> bool" where
  "js_not None = True"
| "js_not (Some x) = (x = 0)"

text \<open>The number carried by an argument that has passed a truthiness guard.\<close>

fun num :: "rat option \<Rightarrow> rat" where
  "num (Some x) = x"
| "num None = 0"

subsection \<open>riskManagement.calculatePositionSize\<close>

text \<open>
  \<^verbatim>\<open>
  calculatePositionSize: (capital, entryPrice, stopLoss) => {
    if (!capital || !entryPrice || !stopLoss) return 0;
    const maxRisk = capital * 0.01;
    const riskPerShare = Math.abs(entryPrice - stopLoss);
    if (riskPerShare === 0) return 0;
    return Math.floor(maxRisk / riskPerShare);
  }
  \<close>
\<close>

definition calculatePositionSize :: "rat option \<Rightarrow> rat option \<Rightarrow> rat option \<Rightarrow> rat" where
  "calculatePositionSize capital entryPrice stopLoss =
     (if js_not capital \<or> js_not entryPrice \<or> js_not stopLoss then 0
      else
        let maxRisk = num capital * (1 / 100);
            riskPerShare = \<bar>num entryPrice - num stopLoss\<bar>
        in if riskPerShare = 0 then 0
           else of_int \<lfloor>maxRisk / riskPerShare\<rfloor>)"

subsection \<open>The receiver of a member call inside an arrow function\<close>

text \<open>
  The members of \<open>riskManagement\<close> are arrow functions written in an object literal
  at the top level of an ES module (the file uses \<open>export const\<close>). An arrow function
  has no \<open>this\<close> of its own: it reads the \<open>this\<close> of the enclosing scope, which at
  the top level of a module is \<open>undefined\<close>, however the function is called. Reading a
  property of \<open>undefined\<close> throws a \<open>TypeError\<close>.

  \<open>ThisRiskManagement\<close> is the receiver the members would see if they were method
  definitions called as \<open>riskManagement.m(...)\<close>; it is kept to state what the calls
  through \<open>this\<close> would compute, and the module never supplies it.
\<close>

datatype js_error = TypeError

datatype this_binding = ThisUndefined | ThisRiskManagement

definition module_this :: this_binding where
  "module_this = ThisUndefined"

text \<open>\<open>this.calculatePositionSize(capital, entryPrice, stopLoss)\<close>\<close>

fun this_calculatePositionSize ::
  "this_binding \<Rightarrow> rat option \<Rightarrow> rat option \<Rightarrow> rat option \<Rightarrow> js_error + rat" where
  "this_calculatePositionSize ThisUndefined capital entryPrice stopLoss = Inl TypeError"
| "this_calculatePositionSize ThisRiskManagement capital entryPrice stopLoss =
     Inr (calculatePositionSize capital entryPrice stopLoss)"

subsection \<open>Number.prototype.toFixed and template strings\<close>

text \<open>
  A JavaScript string is embedded as a \<^typ>\<open>string\<close> holding its UTF-8 bytes.
\<close>

definition digit_char :: "nat \<Rightarrow> char" where
  "digit_char d = ''0123456789'' ! d"

function string_of_nat :: "nat \<Rightarrow> string" where
  "string_of_nat n =
     (if n < 10 then [digit_char n]
      else string_of_nat (n div 10) @ [digit_char (n mod 10)])"
  by pat_completeness auto
termination
  by (relation "measure (\<lambda>n. n)") auto

declare string_of_nat.simps [simp del]

text \<open>
  \<open>x.toFixed(f)\<close>: the sign, then the integer \<open>n\<close> for which \<open>n / 10^f\<close> is closest
  to \<open>|x|\<close> (the larger one on a tie) written in decimal, padded with zeros to at least
  \<open>f + 1\<close> digits, with a point before the last \<open>f\<close> digits when \<open>f\<close> is not 0.
  (Values of magnitude \<open>10^21\<close> and more, which JavaScript prints in exponent notation,
  are outside the model.)
\<close>

definition toFixed :: "rat \<Rightarrow> nat \<Rightarrow> string" where
  "toFixed x f =
     (let s = (if x < 0 then [CHR ''-''] else []);
          n = nat \<lfloor>\<bar>x\<bar> * 10 ^ f + 1 / 2\<rfloor>;
          m = string_of_nat n;
          m = (if f = 0 then m
               else
                 let m = replicate (f + 1 - length m) (CHR ''0'') @ m;
                     k = length m
                 in take (k - f) m @ [CHR ''.''] @ drop (k - f) m)
      in s @ m)"

text \<open>The rupee sign U+20B9.\<close>

definition rupee :: string where
  "rupee = [CHR 0xE2, CHR 0x82, CHR 0xB9]"

subsection \<open>riskManagement.calculatePnL\<close>

text \<open>The profit/loss scenario objects pushed onto \<open>scenarios\<close>.\<close>

record scenario =
  s_name :: string
  s_price :: rat
  s_quantity :: rat
  s_totalValue :: rat
  s_pnl :: rat
  s_pnlPercent :: rat
  s_type :: string

text \<open>The object returned when the risk gate rejects the position.\<close>

record risk_error =
  e_valid :: bool
  e_error :: string
  e_message :: string

text \<open>The object returned otherwise.\<close>

record assessment =
  r_valid :: bool
  r_capital :: rat
  r_position :: rat
  r_entryPrice :: rat
  r_stopLoss :: rat
  r_maxRisk :: rat
  r_riskAmount :: rat
  r_riskPercent :: rat
  r_scenarios :: "scenario list"

datatype pnl_result = Null | Rejected risk_error | Assessed assessment

text \<open>
  \<^verbatim>\<open>
  targets.forEach((target, idx) => {
    if (target && target > entryPrice) {
      const profitAmount = position * (target - entryPrice);
      scenarios.push({
        name: `Target ${idx + 1}`,
        price: target,
        quantity: position,
        totalValue: position * target,
        pnl: profitAmount,
        pnlPercent: ((target - entryPrice) / entryPrice) * 100,
        type: 'profit'
      });
    }
  });
  \<close>
  The loop runs over the elements from index \<open>idx\<close> on and returns the array
  \<open>scenarios\<close> after the pushes. An element may be \<open>undefined\<close>.
\<close>

fun forEach_target ::
  "rat \<Rightarrow> rat \<Rightarrow> nat \<Rightarrow> rat option list \<Rightarrow> scenario list \<Rightarrow> scenario list" where
  "forEach_target position entryPrice idx [] scenarios = scenarios"
| "forEach_target position entryPrice idx (target # rest) scenarios =
     forEach_target position entryPrice (idx + 1) rest
       (if \<not> js_not target \<and> num target > entryPrice then
          let profitAmount = position * (num target - entryPrice)
          in scenarios @
             [\<lparr>s_name = ''Target '' @ string_of_nat (idx + 1),
               s_price = num target,
               s_quantity = position,
               s_totalValue = position * num target,
               s_pnl = profitAmount,
               s_pnlPercent = ((num target - entryPrice) / entryPrice) * 100,
               s_type = ''profit''\<rparr>]
        else scenarios)"

text \<open>
  \<^verbatim>\<open>
  calculatePnL: (capital, entryPrice, targets, stopLoss, quantity = null) => {
    if (!capital || !entryPrice || !stopLoss) return null;
    const maxRisk = capital * 0.01;
    const position = quantity || this.calculatePositionSize(capital, entryPrice, stopLoss);
    const riskAmount = Math.abs(position * (entryPrice - stopLoss));
    const riskPercent = (riskAmount / capital) * 100;
    if (riskAmount > maxRisk * 1.1) {
      return { valid: false, error: 'RISK_TOO_HIGH',
               message: `Position size would risk Rs${riskAmount.toFixed(0)}
                         (${riskPercent.toFixed(2)}%) - Max allowed: Rs${maxRisk.toFixed(0)} (1%)` };
    }
    const scenarios = [];
    scenarios.push({ name: 'Worst Case (Stop Loss)', price: stopLoss, quantity: position,
      totalValue: position * stopLoss, pnl: position * (stopLoss - entryPrice),
      pnlPercent: ((stopLoss - entryPrice) / entryPrice) * 100, type: 'loss' });
    if (Array.isArray(targets)) { targets.forEach(...) }
    return { valid: true, capital, position, entryPrice, stopLoss, maxRisk,
             riskAmount, riskPercent, scenarios };
  }
  \<close>
  (\<open>Rs\<close> stands for the rupee sign of the source.) The argument \<open>targets\<close> is
  \<open>None\<close> when it is not an array. The function is given the receiver \<open>this\<close> as
  a parameter; \<open>calculatePnL\<close> below is the function the module exports.
\<close>

definition calculatePnL_with ::
  "this_binding \<Rightarrow> rat option \<Rightarrow> rat option \<Rightarrow> rat option list option \<Rightarrow> rat option \<Rightarrow>
   rat option \<Rightarrow> js_error + pnl_result" where
  "calculatePnL_with this capital entryPrice targets stopLoss quantity =
     (if js_not capital \<or> js_not entryPrice \<or> js_not stopLoss then Inr Null
      else
        let maxRisk = num capital * (1 / 100) in
        case (if js_not quantity
              then this_calculatePositionSize this capital entryPrice stopLoss
              else Inr (num quantity)) of
          Inl err \<Rightarrow> Inl err
        | Inr position \<Rightarrow>
            let riskAmount = \<bar>position * (num entryPrice - num stopLoss)\<bar>;
                riskPercent = (riskAmount / num capital) * 100
            in
              if riskAmount > maxRisk * (11 / 10) then
                Inr (Rejected
                  \<lparr>e_valid = False,
                   e_error = ''RISK_TOO_HIGH'',
                   e_message =
                     ''Position size would risk '' @ rupee @ toFixed riskAmount 0 @ '' ('' @
                     toFixed riskPercent 2 @ ''%) - Max allowed: '' @ rupee @
                     toFixed maxRisk 0 @ '' (1%)''\<rparr>)
              else
                let scenarios = [];
                    scenarios = scenarios @
                      [\<lparr>s_name = ''Worst Case (Stop Loss)'',
                        s_price = num stopLoss,
                        s_quantity = position,
                        s_totalValue = position * num stopLoss,
                        s_pnl = position * (num stopLoss - num entryPrice),
                        s_pnlPercent = ((num stopLoss - num entryPrice) / num entryPrice) * 100,
                        s_type = ''loss''\<rparr>];
                    scenarios =
                      (case targets of
                         Some ts \<Rightarrow> forEach_target position (num entryPrice) 0 ts scenarios
                       | None \<Rightarrow> scenarios)
                in Inr (Assessed
                  \<lparr>r_valid = True,
                   r_capital = num capital,
                   r_position = position,
                   r_entryPrice = num entryPrice,
                   r_stopLoss = num stopLoss,
                   r_maxRisk = maxRisk,
                   r_riskAmount = riskAmount,
                   r_riskPercent = riskPercent,
                   r_scenarios = scenarios\<rparr>))"

definition calculatePnL ::
  "rat option \<Rightarrow> rat option \<Rightarrow> rat option list option \<Rightarrow> rat option \<Rightarrow> rat option \<Rightarrow>
   js_error + pnl_result" where
  "calculatePnL = calculatePnL_with module_this"

subsection \<open>The scenario list in closed form\<close>

text \<open>The stop-loss scenario and a profit scenario carrying the label number \<open>k\<close>.\<close>

definition stop_scenario :: "rat \<Rightarrow> rat \<Rightarrow> rat \<Rightarrow> scenario" where
  "stop_scenario position entryPrice stopLoss =
     \<lparr>s_name = ''Worst Case (Stop Loss)'',
      s_price = stopLoss,
      s_quantity = position,
      s_totalValue = position * stopLoss,
      s_pnl = position * (stopLoss - entryPrice),
      s_pnlPercent = (stopLoss - entryPrice) / entryPrice * 100,
      s_type = ''loss''\<rparr>"

definition profit_scenario :: "rat \<Rightarrow> rat \<Rightarrow> nat \<Rightarrow> rat \<Rightarrow> scenario" where
  "profit_scenario position entryPrice k target =
     \<lparr>s_name = ''Target '' @ string_of_nat k,
      s_price = target,
      s_quantity = position,
      s_totalValue = position * target,
      s_pnl = position * (target - entryPrice),
      s_pnlPercent = (target - entryPrice) / entryPrice * 100,
      s_type = ''profit''\<rparr>"

text \<open>A target yields a scenario when it is present, not zero and above the entry price.\<close>

definition qualifies :: "rat \<Rightarrow> rat option \<Rightarrow> bool" where
  "qualifies entryPrice target = (if js_not target then False else num target > entryPrice)"

text \<open>
  The list with the profit scenarios numbered consecutively (the first profit scenario
  is \<open>Target 1\<close>, the second \<open>Target 2\<close>, ...), and the list with every profit
  scenario numbered by the place of its target in \<open>targets\<close>.
\<close>

definition scenarios_numbered_consecutively ::
  "rat \<Rightarrow> rat \<Rightarrow> rat \<Rightarrow> rat option list \<Rightarrow> scenario list" where
  "scenarios_numbered_consecutively position entryPrice stopLoss targets =
     stop_scenario position entryPrice stopLoss #
     map (\<lambda>(k, target). profit_scenario position entryPrice (k + 1) (num target))
       (enumerate 0 (filter (qualifies entryPrice) targets))"

definition scenarios_numbered_by_index ::
  "rat \<Rightarrow> rat \<Rightarrow> rat \<Rightarrow> rat option list \<Rightarrow> scenario list" where
  "scenarios_numbered_by_index position entryPrice stopLoss targets =
     stop_scenario position entryPrice stopLoss #
     map (\<lambda>(idx, target). profit_scenario position entryPrice (idx + 1) (num target))
       (filter (\<lambda>(idx, target). qualifies entryPrice target) (enumerate 0 targets))"

text \<open>The \<open>scenarios\<close> field of a result, when the result has one.\<close>

definition scenarios_of :: "js_error + pnl_result \<Rightarrow> scenario list option" where
  "scenarios_of res =
     (case res of
        Inr (Assessed a) \<Rightarrow> Some (r_scenarios a)
      | _ \<Rightarrow> None)"

subsection \<open>riskManagement.calculateRiskReward\<close>

text \<open>
  \<^verbatim>\<open>
  calculateRiskReward: (entryPrice, target, stopLoss) => {
    if (!entryPrice || !target || !stopLoss) return 0;
    const risk = Math.abs(entryPrice - stopLoss);
    const reward = Math.abs(target - entryPrice);
    if (risk === 0) return 0;
    return (reward / risk).toFixed(2);
  }
  \<close>
  The function returns either the number 0 or the string made by \<open>toFixed(2)\<close>.
\<close>

datatype risk_reward = RRZero | RRFixed string

definition calculateRiskReward :: "rat option \<Rightarrow> rat option \<Rightarrow> rat option \<Rightarrow> risk_reward" where
  "calculateRiskReward entryPrice target stopLoss =
     (if js_not entryPrice \<or> js_not target \<or> js_not stopLoss then RRZero
      else
        let risk = \<bar>num entryPrice - num stopLoss\<bar>;
            reward = \<bar>num target - num entryPrice\<bar>
        in if risk = 0 then RRZero
           else RRFixed (toFixed (reward / risk) 2))"

text \<open>\<open>this.calculateRiskReward(entryPrice, target, stopLoss)\<close>\<close>

fun this_calculateRiskReward ::
  "this_binding \<Rightarrow> rat option \<Rightarrow> rat option \<Rightarrow> rat option \<Rightarrow> js_error + risk_reward" where
  "this_calculateRiskReward ThisUndefined entryPrice target stopLoss = Inl TypeError"
| "this_calculateRiskReward ThisRiskManagement entryPrice target stopLoss =
     Inr (calculateRiskReward entryPrice target stopLoss)"

text \<open>
  The number a string converts to in a comparison, for the strings \<open>toFixed\<close> makes:
  an optional minus sign, digits, and optionally a point and digits. \<open>None\<close> is
  \<open>NaN\<close>.
\<close>

definition digit_value :: "char \<Rightarrow> nat option" where
  "digit_value c = map_of (zip ''0123456789'' [0, 1, 2, 3, 4, 5, 6, 7, 8, 9]) c"

fun digits_value :: "string \<Rightarrow> nat \<Rightarrow> nat option" where
  "digits_value [] acc = Some acc"
| "digits_value (c # cs) acc =
     (case digit_value c of
        None \<Rightarrow> None
      | Some d \<Rightarrow> digits_value cs (10 * acc + d))"

definition number_of_string :: "string \<Rightarrow> rat option" where
  "number_of_string s =
     (let negative = (take 1 s = [CHR ''-'']);
          body = (if negative then drop 1 s else s);
          whole = takeWhile (\<lambda>c. c \<noteq> CHR ''.'') body;
          frac = drop (length whole + 1) body
      in if whole = [] then None
         else
           case (digits_value whole 0, digits_value frac 0) of
             (Some w, Some f) \<Rightarrow>
               Some ((if negative then - 1 else 1) *
                     (of_nat w + of_nat f / 10 ^ length frac))
           | _ \<Rightarrow> None)"

text \<open>\<open>rr < x\<close> and \<open>`${rr}`\<close> for a value returned by \<open>calculateRiskReward\<close>.\<close>

fun rr_less :: "risk_reward \<Rightarrow> rat \<Rightarrow> bool" where
  "rr_less RRZero x = (0 < x)"
| "rr_less (RRFixed s) x =
     (case number_of_string s of None \<Rightarrow> False | Some v \<Rightarrow> v < x)"

fun rr_to_string :: "risk_reward \<Rightarrow> string" where
  "rr_to_string RRZero = ''0''"
| "rr_to_string (RRFixed s) = s"

subsection \<open>riskManagement.assessRisk\<close>

text \<open>
  The division by \<open>entryPrice\<close> is not guarded. Dividing by zero gives \<open>NaN\<close> (for
  0 / 0) or an infinity, so the value of \<open>Math.abs(a / b)\<close> is one of the following.
\<close>

datatype js_number = NaN | Infinity | Finite rat

definition abs_quotient :: "rat \<Rightarrow> rat \<Rightarrow> js_number" where
  "abs_quotient a b =
     (if b = 0 then (if a = 0 then NaN else Infinity) else Finite \<bar>a / b\<bar>)"

text \<open>Multiplication by a positive number, and the comparisons with a number.\<close>

fun js_times :: "js_number \<Rightarrow> rat \<Rightarrow> js_number" where
  "js_times NaN y = NaN"
| "js_times Infinity y = Infinity"
| "js_times (Finite x) y = Finite (x * y)"

fun js_greater :: "js_number \<Rightarrow> rat \<Rightarrow> bool" where
  "js_greater NaN y = False"
| "js_greater Infinity y = True"
| "js_greater (Finite x) y = (x > y)"

fun js_less :: "js_number \<Rightarrow> rat \<Rightarrow> bool" where
  "js_less NaN y = False"
| "js_less Infinity y = False"
| "js_less (Finite x) y = (x < y)"

text \<open>The warning sign U+26A0 U+FE0F that starts every warning.\<close>

definition warning_sign :: string where
  "warning_sign = [CHR 0xE2, CHR 0x9A, CHR 0xA0, CHR 0xEF, CHR 0xB8, CHR 0x8F]"

definition high_risk_warning :: string where
  "high_risk_warning =
     warning_sign @ '' HIGH RISK: Stop loss is more than 5% away from entry''"

definition tight_stop_warning :: string where
  "tight_stop_warning = warning_sign @ '' TIGHT STOP: Stop loss is too close (< 0.5%)''"

definition low_reward_warning :: "risk_reward \<Rightarrow> string" where
  "low_reward_warning rr =
     warning_sign @ '' LOW REWARD: Risk/Reward ratio is '' @ rr_to_string rr @
     '':1 (Target should be higher)''"

record risk_warnings =
  w_warnings :: "string list"
  w_recommendations :: "string list"

text \<open>\<open>targets[0]\<close>: \<open>undefined\<close> when the array is empty.\<close>

fun first_target :: "rat option list \<Rightarrow> rat option" where
  "first_target [] = None"
| "first_target (t # ts) = t"

text \<open>
  \<^verbatim>\<open>
  assessRisk: (capital, entryPrice, stopLoss, targets) => {
    const riskPercent = Math.abs((entryPrice - stopLoss) / entryPrice) * 100;
    const warnings = [];
    const recommendations = [];
    if (riskPercent > 5) {
      warnings.push('! HIGH RISK: Stop loss is more than 5% away from entry');
      recommendations.push('Consider tightening stop loss or reducing position size');
    }
    if (riskPercent < 0.5) {
      warnings.push('! TIGHT STOP: Stop loss is too close (< 0.5%)');
      recommendations.push('May get stopped out too easily - consider widening');
    }
    if (targets && targets[0]) {
      const rr = this.calculateRiskReward(entryPrice, targets[0], stopLoss);
      if (rr < 1) {
        warnings.push(`! LOW REWARD: Risk/Reward ratio is ${rr}:1 (Target should be higher)`);
        recommendations.push('Adjust target price higher for better risk/reward');
      }
    }
    return { warnings, recommendations };
  }
  \<close>
  (\<open>!\<close> stands for the warning sign of the source.) \<open>entryPrice\<close> and
  \<open>stopLoss\<close> are numbers; \<open>capital\<close> is not read. The two arrays are threaded
  through the three \<open>if\<close> statements as a record.
\<close>

definition assessRisk_with ::
  "this_binding \<Rightarrow> rat option \<Rightarrow> rat \<Rightarrow> rat \<Rightarrow> rat option list option \<Rightarrow>
   js_error + risk_warnings" where
  "assessRisk_with this capital entryPrice stopLoss targets =
     (let riskPercent = js_times (abs_quotient (entryPrice - stopLoss) entryPrice) 100;
          out = \<lparr>w_warnings = [], w_recommendations = []\<rparr>;
          out =
            (if js_greater riskPercent 5 then
               \<lparr>w_warnings = w_warnings out @ [high_risk_warning],
                w_recommendations = w_recommendations out @
                  [''Consider tightening stop loss or reducing position size'']\<rparr>
             else out);
          out =
            (if js_less riskPercent (1 / 2) then
               \<lparr>w_warnings = w_warnings out @ [tight_stop_warning],
                w_recommendations = w_recommendations out @
                  [''May get stopped out too easily - consider widening'']\<rparr>
             else out)
      in
        case targets of
          None \<Rightarrow> Inr out
        | Some ts \<Rightarrow>
            if js_not (first_target ts) then Inr out
            else
              (case this_calculateRiskReward this (Some entryPrice) (first_target ts)
                      (Some stopLoss) of
                 Inl err \<Rightarrow> Inl err
               | Inr rr \<Rightarrow>
                   if rr_less rr 1 then
                     Inr \<lparr>w_warnings = w_warnings out @ [low_reward_warning rr],
                          w_recommendations = w_recommendations out @
                            [''Adjust target price higher for better risk/reward'']\<rparr>
                   else Inr out))"

definition assessRisk ::
  "rat option \<Rightarrow> rat \<Rightarrow> rat \<Rightarrow> rat option list option \<Rightarrow> js_error + risk_warnings" where
  "assessRisk = assessRisk_with module_this"

subsection \<open>riskManagement.estimateWinProbability\<close>

text \<open>
  \<^verbatim>\<open>
  estimateWinProbability: (rsi, volumeTrend, trend) => {
    let probability = 50;
    if (rsi < 30) probability += 15;
    else if (rsi > 70) probability -= 15;
    if (trend === 'UPTREND') probability += 10;
    else if (trend === 'DOWNTREND') probability -= 10;
    if (volumeTrend === 'INCREASING') probability += 8;
    else if (volumeTrend === 'DECREASING') probability -= 8;
    return Math.min(Math.max(probability, 20), 80);
  }
  \<close>
  \<open>rsi\<close> is \<open>None\<close> when it is \<open>undefined\<close>; both comparisons are then false.
\<close>

fun rsi_less :: "rat option \<Rightarrow> rat \<Rightarrow> bool" where
  "rsi_less None y = False"
| "rsi_less (Some x) y = (x < y)"

fun rsi_greater :: "rat option \<Rightarrow> rat \<Rightarrow> bool" where
  "rsi_greater None y = False"
| "rsi_greater (Some x) y = (x > y)"

definition estimateWinProbability :: "rat option \<Rightarrow> string \<Rightarrow> string \<Rightarrow> int" where
  "estimateWinProbability rsi volumeTrend trend =
     (let probability = 50;
          probability =
            (if rsi_less rsi 30 then probability + 15
             else if rsi_greater rsi 70 then probability - 15
             else probability);
          probability =
            (if trend = ''UPTREND'' then probability + 10
             else if trend = ''DOWNTREND'' then probability - 10
             else probability);
          probability =
            (if volumeTrend = ''INCREASING'' then probability + 8
             else if volumeTrend = ''DECREASING'' then probability - 8
             else probability)
      in min (max probability 20) 80)"

text \<open>The estimate as the specification words it: a clamped sum of three adjustments.\<close>

definition clamp :: "int \<Rightarrow> int \<Rightarrow> int \<Rightarrow> int" where
  "clamp lo hi x = (if x < lo then lo else if x > hi then hi else x)"

definition rsi_points :: "rat option \<Rightarrow> int" where
  "rsi_points rsi = (if rsi_less rsi 30 then 15 else if rsi_greater rsi 70 then - 15 else 0)"

definition trend_points :: "string \<Rightarrow> int" where
  "trend_points trend =
     (if trend = ''UPTREND'' then 10 else if trend = ''DOWNTREND'' then - 10 else 0)"

definition volume_points :: "string \<Rightarrow> int" where
  "volume_points volumeTrend =
     (if volumeTrend = ''INCREASING'' then 8 else if volumeTrend = ''DECREASING'' then - 8
      else 0)"

subsection \<open>marketStatus: the session clock\<close>

text \<open>
  \<open>isMarketOpen\<close> and \<open>getMarketStatus\<close> read the clock (\<open>new Date()\<close>), convert
  it to India Standard Time and look at three fields of the converted date. The reading
  of the clock is the argument of the embedded functions: the fields \<open>getDay\<close>
  (0 for Sunday, ..., 6 for Saturday), \<open>getHours\<close> (0 to 23) and \<open>getMinutes\<close>
  (0 to 59) of the date, together with its calendar date in ISO form (\<open>YYYY-MM-DD\<close>).
\<close>

record date_reading =
  isoDate :: string
  getDay :: nat
  getHours :: nat
  getMinutes :: nat

text \<open>
  \<^verbatim>\<open>
  isMarketOpen: () => {
    const now = new Date();
    const istTime = new Date(now.toLocaleString('en-US', { timeZone: 'Asia/Kolkata' }));
    const hours = istTime.getHours();
    const minutes = istTime.getMinutes();
    const day = istTime.getDay();
    const isWeekday = day >= 1 && day <= 5;
    const isWithinHours = (hours === 9 && minutes >= 15) || (hours > 9 && hours < 15)
                          || (hours === 15 && minutes <= 30);
    return isWeekday && isWithinHours;
  }
  \<close>
\<close>

definition isMarketOpen :: "date_reading \<Rightarrow> bool" where
  "isMarketOpen istTime =
     (let hours = getHours istTime;
          minutes = getMinutes istTime;
          day = getDay istTime;
          isWeekday = (day \<ge> 1 \<and> day \<le> 5);
          isWithinHours = ((hours = 9 \<and> minutes \<ge> 15) \<or> (hours > 9 \<and> hours < 15)
                           \<or> (hours = 15 \<and> minutes \<le> 30))
      in isWeekday \<and> isWithinHours)"

text \<open>
  \<^verbatim>\<open>
  getMarketStatus: () => {
    ... (hours, minutes, day as above)
    const isWeekday = day >= 1 && day <= 5;
    if (!isWeekday)
      return { status: 'CLOSED', label: 'Market Closed (Weekend)', color: 'bg-gray-100' };
    if (hours < 9 || (hours === 9 && minutes < 15))
      return { status: 'PRE_MARKET', label: 'Pre-Market (Before 9:15 AM)', color: 'bg-blue-100' };
    if (hours === 9 && minutes >= 15)
      return { status: 'OPENING', label: 'Opening Session (9:15-12:00)', color: 'bg-orange-100' };
    if (hours >= 10 && hours < 12)
      return { status: 'OPENING', label: 'Opening Session (9:15-12:00)', color: 'bg-orange-100' };
    if (hours >= 12 && hours < 15)
      return { status: 'MID_DAY', label: 'Mid-Day Session (12:00-3:30 PM)', color: 'bg-blue-100' };
    if ((hours === 15 && minutes <= 30) || (hours === 15 && minutes < 60))
      return { status: 'CLOSING', label: 'Closing Session (3:00-3:30 PM)', color: 'bg-red-100' };
    return { status: 'CLOSED', label: 'Market Closed', color: 'bg-gray-100' };
  }
  \<close>
\<close>

record market_status =
  status :: string
  label :: string
  color :: string

definition getMarketStatus :: "date_reading \<Rightarrow> market_status" where
  "getMarketStatus istTime =
     (let hours = getHours istTime;
          minutes = getMinutes istTime;
          day = getDay istTime;
          isWeekday = (day \<ge> 1 \<and> day \<le> 5)
      in
        if isWeekday = False then
          \<lparr>status = ''CLOSED'', label = ''Market Closed (Weekend)'', color = ''bg-gray-100''\<rparr>
        else if hours < 9 \<or> (hours = 9 \<and> minutes < 15) then
          \<lparr>status = ''PRE_MARKET'', label = ''Pre-Market (Before 9:15 AM)'',
           color = ''bg-blue-100''\<rparr>
        else if hours = 9 \<and> minutes \<ge> 15 then
          \<lparr>status = ''OPENING'', label = ''Opening Session (9:15-12:00)'',
           color = ''bg-orange-100''\<rparr>
        else if hours \<ge> 10 \<and> hours < 12 then
          \<lparr>status = ''OPENING'', label = ''Opening Session (9:15-12:00)'',
           color = ''bg-orange-100''\<rparr>
        else if hours \<ge> 12 \<and> hours < 15 then
          \<lparr>status = ''MID_DAY'', label = ''Mid-Day Session (12:00-3:30 PM)'',
           color = ''bg-blue-100''\<rparr>
        else if (hours = 15 \<and> minutes \<le> 30) \<or> (hours = 15 \<and> minutes < 60) then
          \<lparr>status = ''CLOSING'', label = ''Closing Session (3:00-3:30 PM)'',
           color = ''bg-red-100''\<rparr>
        else
          \<lparr>status = ''CLOSED'', label = ''Market Closed'', color = ''bg-gray-100''\<rparr>)"

subsection \<open>The dashboard page: detectMarketStatus\<close>

text \<open>
  \<^verbatim>\<open>
  const detectMarketStatus = () => {
    const now = new Date();
    const hours = now.getHours();
    const minutes = now.getMinutes();
    const dayOfWeek = now.getDay();
    const isWeekday = dayOfWeek > 0 && dayOfWeek < 6;
    const isMarketHours = (hours > 9 || (hours === 9 && minutes >= 15)) &&
                          (hours < 15 || (hours === 15 && minutes <= 30));
    const holidays = [
      "2026-01-26", "2026-03-25", "2026-04-14", "2026-08-15",
      "2026-09-02", "2026-10-02", "2026-10-25", "2026-12-25",
    ];
    const today = now.toISOString().split("T")[0];
    const isHoliday = holidays.includes(today);
    if (isHoliday) { setMarketStatus("HOLIDAY"); setDataType("PREVIOUS"); }
    else if (isWeekday && isMarketHours) { setMarketStatus("OPEN"); setDataType("LIVE"); }
    else { setMarketStatus("CLOSED"); setDataType("PREVIOUS"); }
  }
  \<close>
  The two state setters of the page are the two fields of the record returned.
\<close>

definition holidays :: "string list" where
  "holidays =
     [''2026-01-26'', ''2026-03-25'', ''2026-04-14'', ''2026-08-15'',
      ''2026-09-02'', ''2026-10-02'', ''2026-10-25'', ''2026-12-25'']"

record dashboard_state =
  marketStatus :: string
  dataType :: string

definition detectMarketStatus :: "date_reading \<Rightarrow> dashboard_state" where
  "detectMarketStatus now =
     (let hours = getHours now;
          minutes = getMinutes now;
          dayOfWeek = getDay now;
          isWeekday = (dayOfWeek > 0 \<and> dayOfWeek < 6);
          isMarketHours = ((hours > 9 \<or> (hours = 9 \<and> minutes \<ge> 15)) \<and>
                           (hours < 15 \<or> (hours = 15 \<and> minutes \<le> 30)));
          today = isoDate now;
          isHoliday = List.member holidays today
      in
        if isHoliday then \<lparr>marketStatus = ''HOLIDAY'', dataType = ''PREVIOUS''\<rparr>
        else if isWeekday \<and> isMarketHours then \<lparr>marketStatus = ''OPEN'', dataType = ''LIVE''\<rparr>
        else \<lparr>marketStatus = ''CLOSED'', dataType = ''PREVIOUS''\<rparr>)"

text \<open>The session windows of the specification, in minutes since midnight.\<close>

definition minute_of_day :: "date_reading \<Rightarrow> nat" where
  "minute_of_day t = 60 * getHours t + getMinutes t"

section \<open>The risk calculations in double-precision arithmetic\<close>

text \<open>
  A JavaScript number is an IEEE 754 binary64 value, and each arithmetic operation
  returns the double nearest to the exact result (ties to the even significand). The
  exact model above leaves that rounding out. It can change the integer a floor returns
  and the side of a threshold a comparison falls on, so the position sizer and the
  profit-and-loss function are embedded a second time here with every operation rounded
  as the source rounds it. A finite double is embedded as the rational it denotes.
  The exponent range of binary64 is not modelled: results are taken to lie between
  \<open>2^-1022\<close> and \<open>2^1024\<close> in magnitude, where no overflow or underflow occurs.
\<close>

subsection \<open>Rounding to the nearest double\<close>

text \<open>The number of binary digits of a positive integer (0 for the others).\<close>

function bit_length :: "int \<Rightarrow> nat" where
  "bit_length n = (if n \<le> 0 then 0 else 1 + bit_length (n div 2))"
  by pat_completeness auto
termination
  by (relation "measure nat") auto

declare bit_length.simps [simp del]

definition pow2 :: "int \<Rightarrow> rat" where
  "pow2 k = (if 0 \<le> k then 2 ^ nat k else 1 / 2 ^ nat (- k))"

text \<open>For positive \<open>x\<close>, the exponent \<open>e\<close> with \<open>2^e \<le> x < 2^(e+1)\<close>.\<close>

definition binade :: "rat \<Rightarrow> int" where
  "binade x =
     (if 1 \<le> x then int (bit_length \<lfloor>x\<rfloor>) - 1
      else - int (bit_length (\<lceil>1 / x\<rceil> - 1)))"

text \<open>The nearest integer, the even one of the two on a tie.\<close>

definition round_half_even :: "rat \<Rightarrow> int" where
  "round_half_even y =
     (let f = \<lfloor>y\<rfloor>;
          d = y - of_int f
      in if d < 1 / 2 then f
         else if d > 1 / 2 then f + 1
         else if even f then f
         else f + 1)"

text \<open>
  The nearest number with a significand of 53 binary digits: \<open>|x|\<close> is counted in
  units of \<open>2^(e - 52)\<close>, the count is rounded to an integer, and the sign is put back.
\<close>

definition round_double :: "rat \<Rightarrow> rat" where
  "round_double x =
     (if x = 0 then 0
      else
        let ulp = pow2 (binade \<bar>x\<bar> - 52)
        in sgn x * of_int (round_half_even (\<bar>x\<bar> / ulp)) * ulp)"

text \<open>The operators \<open>*\<close>, \<open>/\<close> and \<open>-\<close> on doubles.\<close>

definition fmul :: "rat \<Rightarrow> rat \<Rightarrow> rat" where
  "fmul a b = round_double (a * b)"

definition fdiv :: "rat \<Rightarrow> rat \<Rightarrow> rat" where
  "fdiv a b = round_double (a / b)"

definition fsub :: "rat \<Rightarrow> rat \<Rightarrow> rat" where
  "fsub a b = round_double (a - b)"

text \<open>
  The value of a decimal literal such as \<open>0.01\<close>, and of a decimal number parsed from
  input: the double nearest to it.
\<close>

definition double :: "rat \<Rightarrow> rat" where
  "double x = round_double x"

subsection \<open>riskManagement.calculatePositionSize, rounded\<close>

text \<open>The source is quoted with the exact model above.\<close>

definition calculatePositionSize_ieee ::
  "rat option \<Rightarrow> rat option \<Rightarrow> rat option \<Rightarrow> rat" where
  "calculatePositionSize_ieee capital entryPrice stopLoss =
     (if js_not capital \<or> js_not entryPrice \<or> js_not stopLoss then 0
      else
        let maxRisk = fmul (num capital) (double (1 / 100));
            riskPerShare = \<bar>fsub (num entryPrice) (num stopLoss)\<bar>
        in if riskPerShare = 0 then 0
           else of_int \<lfloor>fdiv maxRisk riskPerShare\<rfloor>)"

fun this_calculatePositionSize_ieee ::
  "this_binding \<Rightarrow> rat option \<Rightarrow> rat option \<Rightarrow> rat option \<Rightarrow> js_error + rat" where
  "this_calculatePositionSize_ieee ThisUndefined capital entryPrice stopLoss = Inl TypeError"
| "this_calculatePositionSize_ieee ThisRiskManagement capital entryPrice stopLoss =
     Inr (calculatePositionSize_ieee capital entryPrice stopLoss)"

subsection \<open>riskManagement.calculatePnL, rounded\<close>

text \<open>
  The source is quoted with the exact model above. The comparisons, \<open>Math.abs\<close> and
  \<open>Math.floor\<close> are exact on doubles, and \<open>toFixed\<close> prints the exact value of the
  double it is given, so they are the operations of the exact model.
\<close>

fun forEach_target_ieee ::
  "rat \<Rightarrow> rat \<Rightarrow> nat \<Rightarrow> rat option list \<Rightarrow> scenario list \<Rightarrow> scenario list" where
  "forEach_target_ieee position entryPrice idx [] scenarios = scenarios"
| "forEach_target_ieee position entryPrice idx (target # rest) scenarios =
     forEach_target_ieee position entryPrice (idx + 1) rest
       (if \<not> js_not target \<and> num target > entryPrice then
          let profitAmount = fmul position (fsub (num target) entryPrice)
          in scenarios @
             [\<lparr>s_name = ''Target '' @ string_of_nat (idx + 1),
               s_price = num target,
               s_quantity = position,
               s_totalValue = fmul position (num target),
               s_pnl = profitAmount,
               s_pnlPercent = fmul (fdiv (fsub (num target) entryPrice) entryPrice) 100,
               s_type = ''profit''\<rparr>]
        else scenarios)"

definition calculatePnL_ieee_with ::
  "this_binding \<Rightarrow> rat option \<Rightarrow> rat option \<Rightarrow> rat option list option \<Rightarrow> rat option \<Rightarrow>
   rat option \<Rightarrow> js_error + pnl_result" where
  "calculatePnL_ieee_with this capital entryPrice targets stopLoss quantity =
     (if js_not capital \<or> js_not entryPrice \<or> js_not stopLoss then Inr Null
      else
        let maxRisk = fmul (num capital) (double (1 / 100)) in
        case (if js_not quantity
              then this_calculatePositionSize_ieee this capital entryPrice stopLoss
              else Inr (num quantity)) of
          Inl err \<Rightarrow> Inl err
        | Inr position \<Rightarrow>
            let riskAmount = \<bar>fmul position (fsub (num entryPrice) (num stopLoss))\<bar>;
                riskPercent = fmul (fdiv riskAmount (num capital)) 100
            in
              if riskAmount > fmul maxRisk (double (11 / 10)) then
                Inr (Rejected
                  \<lparr>e_valid = False,
                   e_error = ''RISK_TOO_HIGH'',
                   e_message =
                     ''Position size would risk '' @ rupee @ toFixed riskAmount 0 @ '' ('' @
                     toFixed riskPercent 2 @ ''%) - Max allowed: '' @ rupee @
                     toFixed maxRisk 0 @ '' (1%)''\<rparr>)
              else
                let scenarios = [];
                    scenarios = scenarios @
                      [\<lparr>s_name = ''Worst Case (Stop Loss)'',
                        s_price = num stopLoss,
                        s_quantity = position,
                        s_totalValue = fmul position (num stopLoss),
                        s_pnl = fmul position (fsub (num stopLoss) (num entryPrice)),
                        s_pnlPercent =
                          fmul (fdiv (fsub (num stopLoss) (num entryPrice)) (num entryPrice)) 100,
                        s_type = ''loss''\<rparr>];
                    scenarios =
                      (case targets of
                         Some ts \<Rightarrow> forEach_target_ieee position (num entryPrice) 0 ts scenarios
                       | None \<Rightarrow> scenarios)
                in Inr (Assessed
                  \<lparr>r_valid = True,
                   r_capital = num capital,
                   r_position = position,
                   r_entryPrice = num entryPrice,
                   r_stopLoss = num stopLoss,
                   r_maxRisk = maxRisk,
                   r_riskAmount = riskAmount,
                   r_riskPercent = riskPercent,
                   r_scenarios = scenarios\<rparr>))"

definition calculatePnL_ieee ::
  "rat option \<Rightarrow> rat option \<Rightarrow> rat option list option \<Rightarrow> rat option \<Rightarrow> rat option \<Rightarrow>
   js_error + pnl_result" where
  "calculatePnL_ieee = calculatePnL_ieee_with module_this"

subsection \<open>riskManagement.calculateRiskReward, rounded\<close>

definition calculateRiskReward_ieee ::
  "rat option \<Rightarrow> rat option \<Rightarrow> rat option \<Rightarrow> risk_reward" where
  "calculateRiskReward_ieee entryPrice target stopLoss =
     (if js_not entryPrice \<or> js_not target \<or> js_not stopLoss then RRZero
      else
        let risk = \<bar>fsub (num entryPrice) (num stopLoss)\<bar>;
            reward = \<bar>fsub (num target) (num entryPrice)\<bar>
        in if risk = 0 then RRZero
           else RRFixed (toFixed (fdiv reward risk) 2))"

section \<open>Properties\<close>

subsection \<open>Position sizing\<close>

lemma js_not_Some_iff: "js_not a \<longleftrightarrow> a = None \<or> a = Some 0"
  by (cases a) auto

lemma calculatePositionSize_Some:
  assumes "capital \<noteq> 0" "entryPrice \<noteq> 0" "stopLoss \<noteq> 0" "entryPrice \<noteq> stopLoss"
  shows "calculatePositionSize (Some capital) (Some entryPrice) (Some stopLoss) =
           of_int \<lfloor>(capital * (1 / 100)) / \<bar>entryPrice - stopLoss\<bar>\<rfloor>"
  using assms by (simp add: calculatePositionSize_def)



text \<open>
  Claim C10. For capital < 0 and non-zero entryPrice and stopLoss with
  entryPrice \<noteq> stopLoss, \<open>calculatePositionSize\<close> returns a strictly negative
  integer: the guard catches only falsy values, so a negative capital is sized.
\<close>

theorem calculatePositionSize_negative_capital:
  assumes "capital < 0" and "entryPrice \<noteq> 0" and "stopLoss \<noteq> 0"
    and "entryPrice \<noteq> stopLoss"
  shows "\<exists>k::int. k < 0 \<and>
           calculatePositionSize (Some capital) (Some entryPrice) (Some stopLoss) = of_int k"
proof -
  let ?r = "\<bar>entryPrice - stopLoss\<bar>"
  let ?m = "capital * (1 / 100)"
  have rpos: "0 < ?r" using assms(4) by simp
  have "?m < 0" using assms(1) by simp
  with rpos have "?m / ?r < 0" by (simp add: divide_neg_pos)
  then have "\<lfloor>?m / ?r\<rfloor> < 0" by simp
  moreover have "calculatePositionSize (Some capital) (Some entryPrice) (Some stopLoss)
                   = of_int \<lfloor>?m / ?r\<rfloor>"
    using assms by (intro calculatePositionSize_Some) auto
  ultimately show ?thesis by blast
qed

theorem calculatePositionSize_negative_capital_witness:
  "calculatePositionSize (Some (- 100000)) (Some 100) (Some 98) = - 500
   \<and> (\<exists>k::int. k < 0 \<and>
        calculatePositionSize (Some (- 100000)) (Some 100) (Some 98) = of_int k)"
proof -
  have "\<exists>k::int. k < 0 \<and>
          calculatePositionSize (Some (- 100000)) (Some 100) (Some 98) = of_int k"
    by (rule calculatePositionSize_negative_capital) simp_all
  moreover have "calculatePositionSize (Some (- 100000)) (Some 100) (Some 98) = - 500"
    by (simp add: calculatePositionSize_def)
  ultimately show ?thesis by simp
qed

subsection \<open>Evaluating floors and decimal strings\<close>

lemma floor_rat_divide_numeral [simp]:
  "\<lfloor>numeral a / numeral b :: rat\<rfloor> = numeral a div numeral b"
  by (metis floor_divide_of_int_eq of_int_numeral)

lemma floor_rat_minus_divide_numeral [simp]:
  "\<lfloor>- (numeral a / numeral b) :: rat\<rfloor> = - numeral a div numeral b"
  by (metis divide_minus_left floor_divide_of_int_eq of_int_neg_numeral of_int_numeral)

lemma string_of_nat_digit: "n < 10 \<Longrightarrow> string_of_nat n = [digit_char n]"
  by (simp add: string_of_nat.simps)

lemma string_of_nat_step:
  "10 \<le> n \<Longrightarrow> string_of_nat n = string_of_nat (n div 10) @ [digit_char (n mod 10)]"
  by (subst string_of_nat.simps) simp

lemmas js_string_eval =
  string_of_nat_digit string_of_nat_step digit_char_def toFixed_def Let_def

subsection \<open>Profit and loss scenarios\<close>

text \<open>The loop appends one profit scenario for each qualifying target, numbered by index.\<close>

lemma forEach_target_append:
  "forEach_target position entryPrice idx targets scenarios =
     scenarios @
     map (\<lambda>(i, target). profit_scenario position entryPrice (i + 1) (num target))
       (filter (\<lambda>(i, target). qualifies entryPrice target) (enumerate idx targets))"
proof (induction targets arbitrary: idx scenarios)
  case Nil
  show ?case by simp
next
  case (Cons target rest)
  show ?case
    by (simp add: Cons.IH [of "Suc idx"] qualifies_def profit_scenario_def Let_def)
qed

text \<open>The result of a call whose arguments are all present and not zero.\<close>

lemma calculatePnL_quantity:
  assumes "capital \<noteq> 0" "entryPrice \<noteq> 0" "stopLoss \<noteq> 0" "quantity \<noteq> 0"
  shows "calculatePnL (Some capital) (Some entryPrice) targets (Some stopLoss) (Some quantity) =
     (if \<bar>quantity * (entryPrice - stopLoss)\<bar> > capital * (1 / 100) * (11 / 10) then
        Inr (Rejected
          \<lparr>e_valid = False,
           e_error = ''RISK_TOO_HIGH'',
           e_message =
             ''Position size would risk '' @ rupee @
             toFixed \<bar>quantity * (entryPrice - stopLoss)\<bar> 0 @ '' ('' @
             toFixed (\<bar>quantity * (entryPrice - stopLoss)\<bar> / capital * 100) 2 @
             ''%) - Max allowed: '' @ rupee @ toFixed (capital * (1 / 100)) 0 @ '' (1%)''\<rparr>)
      else
        Inr (Assessed
          \<lparr>r_valid = True,
           r_capital = capital,
           r_position = quantity,
           r_entryPrice = entryPrice,
           r_stopLoss = stopLoss,
           r_maxRisk = capital * (1 / 100),
           r_riskAmount = \<bar>quantity * (entryPrice - stopLoss)\<bar>,
           r_riskPercent = \<bar>quantity * (entryPrice - stopLoss)\<bar> / capital * 100,
           r_scenarios =
             (case targets of
                Some ts \<Rightarrow> scenarios_numbered_by_index quantity entryPrice stopLoss ts
              | None \<Rightarrow> [stop_scenario quantity entryPrice stopLoss])\<rparr>))"
  using assms
  by (simp add: calculatePnL_def calculatePnL_with_def Let_def forEach_target_append
      scenarios_numbered_by_index_def stop_scenario_def split: option.split)

text \<open>
  Without a quantity (absent, \<open>null\<close> or 0) the position is asked of
  \<open>this.calculatePositionSize\<close>, and the read of \<open>this\<close> throws.
\<close>

lemma calculatePnL_no_quantity_throws:
  assumes "\<not> js_not capital" "\<not> js_not entryPrice" "\<not> js_not stopLoss" "js_not quantity"
  shows "calculatePnL capital entryPrice targets stopLoss quantity = Inl TypeError"
  using assms by (simp add: calculatePnL_def calculatePnL_with_def module_this_def)

text \<open>
  What the same call computes when \<open>this\<close> is the \<open>riskManagement\<close> object: the
  values the specification lists for capital 100000, entry 100, stop 98, target 106.
\<close>

lemma calculatePnL_with_receiver_example:
  "calculatePnL_with ThisRiskManagement
     (Some 100000) (Some 100) (Some [Some 106]) (Some 98) None =
   Inr (Assessed
     \<lparr>r_valid = True, r_capital = 100000, r_position = 500, r_entryPrice = 100,
      r_stopLoss = 98, r_maxRisk = 1000, r_riskAmount = 1000, r_riskPercent = 1,
      r_scenarios =
        [\<lparr>s_name = ''Worst Case (Stop Loss)'', s_price = 98, s_quantity = 500,
          s_totalValue = 49000, s_pnl = - 1000, s_pnlPercent = - 2, s_type = ''loss''\<rparr>,
         \<lparr>s_name = ''Target 1'', s_price = 106, s_quantity = 500,
          s_totalValue = 53000, s_pnl = 3000, s_pnlPercent = 6, s_type = ''profit''\<rparr>]\<rparr>)"
  by (simp add: calculatePnL_with_def calculatePositionSize_def js_string_eval)

text \<open>
  Claim C1. When quantity is not supplied, \<open>calculatePnL\<close> computes the position
  through the position sizer and returns a valid assessment without throwing; for
  capital 100000, entryPrice 100, stopLoss 98, targets [106] it returns \<open>valid: true\<close>
  with position 500, a stop-loss scenario with pnl -1000 and a target scenario with pnl
  3000 and pnlPercent 6.

  The code does not: at this input the call throws a \<open>TypeError\<close>, because
  \<open>this\<close> is \<open>undefined\<close> inside the arrow function.
\<close>

theorem calculatePnL_without_quantity_throws:
  "calculatePnL (Some 100000) (Some 100) (Some [Some 106]) (Some 98) None = Inl TypeError"
  by (simp add: calculatePnL_def calculatePnL_with_def module_this_def)

text \<open>
  When every target qualifies, numbering by index and numbering consecutively agree.
\<close>

lemma numbering_agrees_when_all_qualify:
  assumes "list_all (qualifies entryPrice) targets"
  shows "scenarios_numbered_by_index position entryPrice stopLoss targets =
         scenarios_numbered_consecutively position entryPrice stopLoss targets"
proof -
  have all: "\<And>t. t \<in> set targets \<Longrightarrow> qualifies entryPrice t"
    using assms by (simp add: list_all_iff)
  then have "filter (qualifies entryPrice) targets = targets"
    by (simp add: filter_id_conv)
  moreover have "filter (\<lambda>(i, t). qualifies entryPrice t) (enumerate 0 targets) =
      enumerate 0 targets"
    using all by (auto simp: filter_id_conv in_set_enumerate_eq)
  ultimately show ?thesis
    by (simp add: scenarios_numbered_by_index_def scenarios_numbered_consecutively_def)
qed




subsection \<open>Risk warnings\<close>

text \<open>
  Without a usable first target (no array, an empty array, or a first element that is
  absent or zero) \<open>assessRisk\<close> returns, and the two distance warnings are decided by
  the risk percentage alone.
\<close>

lemma assessRisk_without_first_target:
  assumes "entryPrice \<noteq> 0"
    and "targets = None \<or> (\<exists>ts. targets = Some ts \<and> js_not (first_target ts))"
  shows "\<exists>out. assessRisk capital entryPrice stopLoss targets = Inr out \<and>
           (high_risk_warning \<in> set (w_warnings out)
              \<longleftrightarrow> \<bar>(entryPrice - stopLoss) / entryPrice\<bar> * 100 > 5) \<and>
           (tight_stop_warning \<in> set (w_warnings out)
              \<longleftrightarrow> \<bar>(entryPrice - stopLoss) / entryPrice\<bar> * 100 < 1 / 2)"
proof -
  have ne: "high_risk_warning \<noteq> tight_stop_warning"
    by (simp add: high_risk_warning_def tight_stop_warning_def)
  from assms ne show ?thesis
    by (auto simp: assessRisk_def assessRisk_with_def abs_quotient_def Let_def)
qed

text \<open>With a first target that is present and not zero, the call throws.\<close>

lemma assessRisk_first_target_throws:
  assumes "\<not> js_not (first_target ts)"
  shows "assessRisk capital entryPrice stopLoss (Some ts) = Inl TypeError"
  using assms by (simp add: assessRisk_def assessRisk_with_def module_this_def Let_def)

text \<open>
  What the same call computes when \<open>this\<close> is the \<open>riskManagement\<close> object: the
  low-reward warning for entry 100, stop 98 and first target 100.5.
\<close>

lemma assessRisk_with_receiver_example:
  "assessRisk_with ThisRiskManagement (Some 100000) 100 98 (Some [Some (201 / 2)]) =
     Inr \<lparr>w_warnings = [low_reward_warning (RRFixed ''0.25'')],
          w_recommendations = [''Adjust target price higher for better risk/reward'']\<rparr>"
  by (simp add: assessRisk_with_def abs_quotient_def calculateRiskReward_def
      number_of_string_def digit_value_def js_string_eval)

text \<open>
  Claim C5. \<open>assessRisk\<close> never throws, and for a non-zero entryPrice it returns a
  record of warnings and recommendations with the \<open>>5%\<close> warning exactly when the risk
  percentage is above 5, the \<open><0.5%\<close> warning exactly when it is below 0.5, and the
  low-reward warning when a first target is supplied with reward/risk below 1; entry
  100 with stop 90 yields the first, entry 100 with stop 99.7 the second, and target
  100.5 the third.

  The code does not: with the first target 100.5 (entry 100, stop 98) the call throws
  a \<open>TypeError\<close>, because \<open>this\<close> is \<open>undefined\<close> inside the arrow function.
  The two other examples, which pass no target, come out as the claim says.
\<close>

theorem assessRisk_with_target_throws:
  "assessRisk (Some 100000) 100 98 (Some [Some (201 / 2)]) = Inl TypeError
   \<and> assessRisk (Some 100000) 100 90 (Some []) =
       Inr \<lparr>w_warnings = [high_risk_warning],
            w_recommendations =
              [''Consider tightening stop loss or reducing position size'']\<rparr>
   \<and> assessRisk (Some 100000) 100 (997 / 10) (Some []) =
       Inr \<lparr>w_warnings = [tight_stop_warning],
            w_recommendations = [''May get stopped out too easily - consider widening'']\<rparr>"
  by (simp add: assessRisk_def assessRisk_with_def module_this_def abs_quotient_def)

subsection \<open>Win probability\<close>

text \<open>
  Claim C9. For every rsi, volumeTrend and trend, \<open>estimateWinProbability\<close> is the
  clamp to [20, 80] of 50, plus 15 if rsi < 30 or minus 15 if rsi > 70, plus 10 if trend
  is UPTREND or minus 10 if DOWNTREND, plus 8 if volumeTrend is INCREASING or minus 8 if
  DECREASING; \<open>estimateWinProbability(25, "INCREASING", "UPTREND")\<close> is 83 clamped to
  80, and the result is always in [20, 80].
\<close>

theorem estimateWinProbability_clamped_sum:
  "estimateWinProbability rsi volumeTrend trend =
     clamp 20 80 (50 + rsi_points rsi + trend_points trend + volume_points volumeTrend)
   \<and> 20 \<le> estimateWinProbability rsi volumeTrend trend
   \<and> estimateWinProbability rsi volumeTrend trend \<le> 80
   \<and> 50 + rsi_points (Some 25) + trend_points ''UPTREND'' + volume_points ''INCREASING'' = 83
   \<and> estimateWinProbability (Some 25) ''INCREASING'' ''UPTREND'' = 80"
proof -
  have rsi: "(if rsi_less rsi 30 then (50 :: int) + 15
              else if rsi_greater rsi 70 then 50 - 15 else 50) = 50 + rsi_points rsi"
    by (simp add: rsi_points_def)
  have trend: "\<And>p. (if trend = ''UPTREND'' then p + 10
                    else if trend = ''DOWNTREND'' then p - 10 else p) = p + trend_points trend"
    by (simp add: trend_points_def)
  have volume: "\<And>p. (if volumeTrend = ''INCREASING'' then p + 8
                     else if volumeTrend = ''DECREASING'' then p - 8 else p)
                  = p + volume_points volumeTrend"
    by (simp add: volume_points_def)
  have clamped: "\<And>p :: int. min (max p 20) 80 = clamp 20 80 p"
    by (simp add: clamp_def)
  have sum: "estimateWinProbability rsi volumeTrend trend =
      clamp 20 80 (50 + rsi_points rsi + trend_points trend + volume_points volumeTrend)"
    unfolding estimateWinProbability_def Let_def
    by (simp only: rsi trend volume clamped)
  have lower: "20 \<le> estimateWinProbability rsi volumeTrend trend"
    unfolding sum by (simp add: clamp_def)
  have upper: "estimateWinProbability rsi volumeTrend trend \<le> 80"
    unfolding sum by (simp add: clamp_def)
  have points:
    "50 + rsi_points (Some 25) + trend_points ''UPTREND'' + volume_points ''INCREASING'' = 83"
    by (simp add: rsi_points_def trend_points_def volume_points_def)
  have example: "estimateWinProbability (Some 25) ''INCREASING'' ''UPTREND'' = 80"
    by (simp add: estimateWinProbability_def Let_def)
  from sum lower upper points example show ?thesis by blast
qed

subsection \<open>The session clock\<close>

text \<open>
  \<open>isMarketOpen\<close> in terms of the weekday and the minute of the day: open from
  09:15 to 15:30 on Monday to Friday. The calendar date is not read.
\<close>

lemma isMarketOpen_window:
  assumes "getMinutes t < 60"
  shows "isMarketOpen t \<longleftrightarrow>
           1 \<le> getDay t \<and> getDay t \<le> 5 \<and> 555 \<le> minute_of_day t \<and> minute_of_day t \<le> 930"
  using assms by (auto simp: isMarketOpen_def minute_of_day_def Let_def)

lemma isMarketOpen_ignores_date:
  "isMarketOpen (t\<lparr>isoDate := d\<rparr>) = isMarketOpen t"
  by (simp add: isMarketOpen_def)

text \<open>
  Claim C6. \<open>isMarketOpen\<close> returns true exactly on Monday to Friday when the
  exchange-local time satisfies \<open>(h = 9 and m \<ge> 15) or (9 < h < 15) or (h = 15 and
  m \<le> 30)\<close>, and a date on the configured holiday list forces a closed result
  whatever the weekday and hour: a Tuesday 10:00 gives true, a Saturday gives false, and
  a configured holiday during normal hours gives false.

  The code does not consult the holiday list: on Monday 2026-01-26, a date of the list
  that the dashboard's \<open>detectMarketStatus\<close> reports as \<open>HOLIDAY\<close>, at 10:00
  \<open>isMarketOpen\<close> returns true. The Tuesday and Saturday examples come out as the
  claim says.
\<close>

theorem isMarketOpen_on_holiday:
  "isMarketOpen \<lparr>isoDate = ''2026-01-26'', getDay = 1, getHours = 10, getMinutes = 0\<rparr> = True
   \<and> List.member holidays ''2026-01-26''
   \<and> detectMarketStatus
         \<lparr>isoDate = ''2026-01-26'', getDay = 1, getHours = 10, getMinutes = 0\<rparr> =
       \<lparr>marketStatus = ''HOLIDAY'', dataType = ''PREVIOUS''\<rparr>
   \<and> isMarketOpen \<lparr>isoDate = ''2026-01-27'', getDay = 2, getHours = 10, getMinutes = 0\<rparr> = True
   \<and> isMarketOpen \<lparr>isoDate = ''2026-01-31'', getDay = 6, getHours = 10, getMinutes = 0\<rparr>
       = False"
  by (simp add: isMarketOpen_def detectMarketStatus_def holidays_def)

text \<open>The status on a weekday, by the minute of the day.\<close>

lemma getMarketStatus_weekday:
  assumes "1 \<le> getDay t" "getDay t \<le> 5" "getMinutes t < 60"
  shows "status (getMarketStatus t) =
           (if minute_of_day t < 555 then ''PRE_MARKET''
            else if minute_of_day t < 720 then ''OPENING''
            else if minute_of_day t < 900 then ''MID_DAY''
            else if minute_of_day t < 960 then ''CLOSING''
            else ''CLOSED'')"
proof -
  consider "getHours t < 9" | "getHours t = 9" | "10 \<le> getHours t \<and> getHours t < 12"
    | "12 \<le> getHours t \<and> getHours t < 15" | "getHours t = 15" | "16 \<le> getHours t"
    by linarith
  then show ?thesis
  proof cases
    case 1
    with assms show ?thesis by (simp add: getMarketStatus_def minute_of_day_def Let_def)
  next
    case 2
    with assms show ?thesis by (simp add: getMarketStatus_def minute_of_day_def Let_def)
  next
    case 3
    with assms show ?thesis by (simp add: getMarketStatus_def minute_of_day_def Let_def)
  next
    case 4
    with assms show ?thesis by (simp add: getMarketStatus_def minute_of_day_def Let_def)
  next
    case 5
    with assms show ?thesis by (simp add: getMarketStatus_def minute_of_day_def Let_def)
  next
    case 6
    with assms show ?thesis by (simp add: getMarketStatus_def minute_of_day_def Let_def)
  qed
qed

text \<open>
  Claim C7. On a weekday \<open>getMarketStatus\<close> returns \<open>PRE_MARKET\<close> before 09:15,
  \<open>OPENING\<close> in [09:15, 12:00), \<open>MID_DAY\<close> in [12:00, 15:00), \<open>CLOSING\<close> only
  in [15:00, 15:30], and \<open>CLOSED\<close> after 15:30.

  The code does not: on a Tuesday at 15:45 it returns \<open>CLOSING\<close>, under the label
  \<open>Closing Session (3:00-3:30 PM)\<close>, while \<open>isMarketOpen\<close> is false at that time.
\<close>

theorem getMarketStatus_after_close:
  "getMarketStatus \<lparr>isoDate = ''2026-01-27'', getDay = 2, getHours = 15, getMinutes = 45\<rparr> =
     \<lparr>status = ''CLOSING'', label = ''Closing Session (3:00-3:30 PM)'', color = ''bg-red-100''\<rparr>
   \<and> isMarketOpen \<lparr>isoDate = ''2026-01-27'', getDay = 2, getHours = 15, getMinutes = 45\<rparr>
       = False"
  by (simp add: getMarketStatus_def isMarketOpen_def)

section \<open>Properties of the double-precision model\<close>

subsection \<open>The rounding\<close>

lemma bit_length_0: "n \<le> 0 \<Longrightarrow> bit_length n = 0"
  by (simp add: bit_length.simps)

lemma bit_length_pos: "0 < n \<Longrightarrow> bit_length n = 1 + bit_length (n div 2)"
  by (subst bit_length.simps) simp

lemma less_power_bit_length: "n < 2 ^ bit_length n"
proof (induction n rule: bit_length.induct)
  case (1 n)
  show ?case
  proof (cases "n \<le> 0")
    case True
    then show ?thesis by (simp add: bit_length_0)
  next
    case False
    then have "n div 2 < 2 ^ bit_length (n div 2)" using 1 by simp
    then have "n < 2 * 2 ^ bit_length (n div 2)" by linarith
    with False show ?thesis by (simp add: bit_length_pos)
  qed
qed

lemma power_bit_length_le: "0 < n \<Longrightarrow> 2 ^ (bit_length n - 1) \<le> n"
proof (induction n rule: bit_length.induct)
  case (1 n)
  show ?case
  proof (cases "n div 2 \<le> 0")
    case True
    with 1(2) have "n = 1" by linarith
    then show ?thesis by (simp add: bit_length_pos bit_length_0)
  next
    case False
    then have pos: "0 < n div 2" by simp
    with 1 have ih: "2 ^ (bit_length (n div 2) - 1) \<le> n div 2" by simp
    have "0 < bit_length (n div 2)" using pos by (simp add: bit_length_pos)
    then have "bit_length n - 1 = Suc (bit_length (n div 2) - 1)"
      using 1(2) by (simp add: bit_length_pos)
    then have "(2::int) ^ (bit_length n - 1) = 2 * 2 ^ (bit_length (n div 2) - 1)" by simp
    also have "\<dots> \<le> 2 * (n div 2)" using ih by simp
    also have "\<dots> \<le> n" by linarith
    finally show ?thesis .
  qed
qed

lemma pow2_pos: "0 < pow2 k"
  by (simp add: pow2_def)

lemma binade_lower:
  assumes "0 < x"
  shows "pow2 (binade x) \<le> x"
proof (cases "1 \<le> x")
  case True
  define n where "n = \<lfloor>x\<rfloor>"
  have npos: "0 < n" using True by (simp add: n_def)
  then have bl: "0 < bit_length n" by (simp add: bit_length_pos)
  have "(2::int) ^ (bit_length n - 1) \<le> n" using npos by (rule power_bit_length_le)
  then have "(of_int (2 ^ (bit_length n - 1)) :: rat) \<le> of_int n"
    by (simp only: of_int_le_iff)
  also have "(of_int n :: rat) \<le> x" by (simp add: n_def)
  finally have "(2::rat) ^ (bit_length n - 1) \<le> x" by simp
  moreover have "binade x = int (bit_length n) - 1"
    using True by (simp add: binade_def n_def)
  moreover have "nat (int (bit_length n) - 1) = bit_length n - 1" by simp
  ultimately show ?thesis using bl by (simp add: pow2_def)
next
  case False
  define n where "n = \<lceil>1 / x\<rceil> - 1"
  have "n < 2 ^ bit_length n" by (rule less_power_bit_length)
  then have "\<lceil>1 / x\<rceil> \<le> 2 ^ bit_length n" by (simp add: n_def)
  then have "1 / x \<le> of_int (2 ^ bit_length n)" by (simp only: ceiling_le_iff)
  then have "1 / x \<le> 2 ^ bit_length n" by simp
  then have "1 \<le> 2 ^ bit_length n * x" using assms by (simp add: pos_divide_le_eq)
  then have "1 / 2 ^ bit_length n \<le> x"
    by (simp add: pos_divide_le_eq mult.commute)
  moreover have "binade x = - int (bit_length n)"
    using False by (simp add: binade_def n_def)
  ultimately show ?thesis by (cases "bit_length n = 0") (simp_all add: pow2_def)
qed

lemma round_half_even_ge_floor: "\<lfloor>y\<rfloor> \<le> round_half_even y"
  by (simp add: round_half_even_def Let_def)

lemma pow2_diff: "pow2 (e - 52) * 2 ^ 52 = pow2 e"
proof -
  consider "52 \<le> e" | "0 \<le> e \<and> e < 52" | "e < 0" by linarith
  then show ?thesis
  proof cases
    case 1
    then have "nat e = nat (e - 52) + 52" by simp
    then have "(2::rat) ^ nat e = 2 ^ nat (e - 52) * 2 ^ 52" by (simp only: power_add)
    with 1 show ?thesis by (simp add: pow2_def)
  next
    case 2
    then have "52 = nat (52 - e) + nat e" by linarith
    then have "(2::rat) ^ 52 = 2 ^ nat (52 - e) * 2 ^ nat e" by (metis power_add)
    then have "(2::rat) ^ 52 / 2 ^ nat (52 - e) = 2 ^ nat e"
      by (metis nonzero_mult_div_cancel_left power_not_zero zero_neq_numeral)
    moreover have "pow2 (e - 52) * 2 ^ 52 = 2 ^ 52 / 2 ^ nat (52 - e)"
      using 2 by (simp add: pow2_def)
    moreover have "pow2 e = 2 ^ nat e" using 2 by (simp add: pow2_def)
    ultimately show ?thesis by simp
  next
    case 3
    then have "nat (52 - e) = nat (- e) + 52" by simp
    then have "(2::rat) ^ nat (52 - e) = 2 ^ nat (- e) * 2 ^ 52" by (simp only: power_add)
    with 3 show ?thesis by (simp add: pow2_def)
  qed
qed

lemma round_double_count_pos:
  assumes "0 < x"
  shows "0 < round_half_even (x / pow2 (binade x - 52))"
proof -
  let ?u = "pow2 (binade x - 52)"
  have u: "0 < ?u" by (rule pow2_pos)
  have "?u * 2 ^ 52 \<le> x" unfolding pow2_diff by (rule binade_lower [OF assms])
  then have "2 ^ 52 \<le> x / ?u" using u by (simp add: pos_le_divide_eq mult.commute)
  moreover have "(1::rat) \<le> 2 ^ 52" by simp
  ultimately have "(1::rat) \<le> x / ?u" by (rule order_trans [rotated])
  then have "1 \<le> \<lfloor>x / ?u\<rfloor>" by (simp add: le_floor_iff)
  with round_half_even_ge_floor [of "x / ?u"] show ?thesis by linarith
qed

lemma round_double_pos: "0 < x \<Longrightarrow> 0 < round_double x"
  using round_double_count_pos [of x] pow2_pos [of "binade x - 52"]
  by (simp add: round_double_def Let_def)

lemma round_double_neg:
  assumes "x < 0"
  shows "round_double x < 0"
proof -
  have "0 < - x" using assms by simp
  then have "0 < round_half_even (\<bar>x\<bar> / pow2 (binade \<bar>x\<bar> - 52))"
    using round_double_count_pos [of "- x"] assms by simp
  then have "0 < of_int (round_half_even (\<bar>x\<bar> / pow2 (binade \<bar>x\<bar> - 52))) * pow2 (binade \<bar>x\<bar> - 52)"
    using pow2_pos [of "binade \<bar>x\<bar> - 52"] by simp
  then show ?thesis using assms by (simp add: round_double_def Let_def mult.assoc)
qed

lemma round_double_eq_0_iff: "round_double x = 0 \<longleftrightarrow> x = 0"
proof
  assume r: "round_double x = 0"
  show "x = 0"
  proof (rule ccontr)
    assume "x \<noteq> 0"
    then consider "0 < x" | "x < 0" by linarith
    then show False
      using r round_double_pos [of x] round_double_neg [of x] by cases simp_all
  qed
next
  assume "x = 0"
  then show "round_double x = 0" by (simp add: round_double_def)
qed

lemma binade_upper:
  assumes "0 < x"
  shows "x < pow2 (binade x + 1)"
proof (cases "1 \<le> x")
  case True
  define n where "n = \<lfloor>x\<rfloor>"
  have "n < 2 ^ bit_length n" by (rule less_power_bit_length)
  then have "\<lfloor>x\<rfloor> + 1 \<le> 2 ^ bit_length n" by (simp add: n_def)
  then have "(of_int (\<lfloor>x\<rfloor> + 1) :: rat) \<le> of_int (2 ^ bit_length n)"
    by (simp only: of_int_le_iff)
  moreover have "x < of_int (\<lfloor>x\<rfloor> + 1)" by linarith
  ultimately have "x < 2 ^ bit_length n" by simp
  moreover have "binade x + 1 = int (bit_length n)"
    using True by (simp add: binade_def n_def)
  ultimately show ?thesis by (simp add: pow2_def)
next
  case False
  define n where "n = \<lceil>1 / x\<rceil> - 1"
  have inv: "1 < 1 / x" using assms False by simp
  then have "1 < \<lceil>1 / x\<rceil>" using less_ceiling_iff [of 1 "1 / x"] by simp
  then have npos: "0 < n" unfolding n_def by linarith
  have bl: "0 < bit_length n" using npos by (simp add: bit_length_pos)
  have "2 ^ (bit_length n - 1) \<le> n" using npos by (rule power_bit_length_le)
  then have "(of_int (2 ^ (bit_length n - 1)) :: rat) \<le> of_int n" by (simp only: of_int_le_iff)
  also have "(of_int n :: rat) < 1 / x" unfolding n_def by linarith
  finally have "2 ^ (bit_length n - 1) < 1 / x" by simp
  then have "2 ^ (bit_length n - 1) * x < 1" using assms by (simp add: pos_less_divide_eq)
  then have "x < 1 / 2 ^ (bit_length n - 1)" by (simp add: pos_less_divide_eq mult.commute)
  moreover have "binade x + 1 = - int (bit_length n - 1)"
    using False bl by (simp add: binade_def n_def)
  moreover have "nat (int (bit_length n - 1)) = bit_length n - 1" by simp
  ultimately show ?thesis
    by (cases "bit_length n - 1 = 0") (simp_all only: pow2_def nat_0 power_0, simp_all)
qed

lemma round_half_even_error: "\<bar>of_int (round_half_even y) - y\<bar> \<le> 1 / 2"
proof -
  have "of_int \<lfloor>y\<rfloor> \<le> y" "y < of_int \<lfloor>y\<rfloor> + 1" by linarith+
  then show ?thesis by (auto simp: round_half_even_def Let_def)
qed

text \<open>The rounded value is within half a unit in the last place of the exact one.\<close>

lemma round_double_error:
  assumes "x \<noteq> 0"
  shows "\<bar>round_double x - x\<bar> \<le> pow2 (binade \<bar>x\<bar> - 52) / 2"
proof -
  let ?u = "pow2 (binade \<bar>x\<bar> - 52)"
  let ?n = "of_int (round_half_even (\<bar>x\<bar> / ?u)) :: rat"
  have u: "0 < ?u" by (rule pow2_pos)
  have "\<bar>?n - \<bar>x\<bar> / ?u\<bar> \<le> 1 / 2" by (rule round_half_even_error)
  then have "\<bar>?n - \<bar>x\<bar> / ?u\<bar> * ?u \<le> 1 / 2 * ?u" using u by (simp only: mult_le_cancel_right_pos)
  moreover have "\<bar>?n - \<bar>x\<bar> / ?u\<bar> * ?u = \<bar>?n * ?u - \<bar>x\<bar>\<bar>"
  proof -
    have "\<bar>?n - \<bar>x\<bar> / ?u\<bar> * ?u = \<bar>(?n - \<bar>x\<bar> / ?u) * ?u\<bar>"
      using u by (simp add: abs_mult)
    also have "(?n - \<bar>x\<bar> / ?u) * ?u = ?n * ?u - \<bar>x\<bar>"
      using u by (simp add: left_diff_distrib)
    finally show ?thesis .
  qed
  ultimately have bound: "\<bar>?n * ?u - \<bar>x\<bar>\<bar> \<le> ?u / 2" by simp
  have "round_double x - x = sgn x * (?n * ?u - \<bar>x\<bar>)"
    using assms by (simp add: round_double_def Let_def right_diff_distrib mult.assoc mult_sgn_abs)
  then have "\<bar>round_double x - x\<bar> = \<bar>?n * ?u - \<bar>x\<bar>\<bar>"
    using assms by (simp add: abs_mult abs_sgn_eq)
  with bound show ?thesis by simp
qed

subsection \<open>Evaluating the rounding on numerals\<close>

lemma ceiling_rat_divide_numeral [simp]:
  "\<lceil>numeral a / numeral b :: rat\<rceil> = - (- numeral a div numeral b)"
  by (simp add: ceiling_def)

lemmas double_eval =
  round_double_def double_def fmul_def fdiv_def fsub_def binade_def pow2_def
  round_half_even_def bit_length_0 bit_length_pos Let_def sgn_if

text \<open>The doubles written \<open>0.01\<close> and \<open>1.1\<close> in the source.\<close>

lemma double_0_01: "double (1 / 100) = 5764607523034235 / 576460752303423488"
  by (simp add: double_eval)

lemma double_1_1: "double (11 / 10) = 2476979795053773 / 2251799813685248"
  by (simp add: double_eval)

lemma double_pos: "0 < x \<Longrightarrow> 0 < double x"
  by (simp add: double_def round_double_pos)

lemma fsub_eq_0_iff: "fsub a b = 0 \<longleftrightarrow> a = b"
  by (simp add: fsub_def round_double_eq_0_iff)

subsection \<open>Position sizing in doubles\<close>

text \<open>
  Claim C3. \<open>calculatePositionSize\<close> returns 0 whenever capital, entryPrice or
  stopLoss is falsy (absent or zero) or entryPrice equals stopLoss; for every other
  input it returns \<open>floor((capital * 0.01) / |entryPrice - stopLoss|)\<close>, the product,
  the difference and the quotient being the doubles the source computes. In particular
  \<open>calculatePositionSize(100000, 100, 98) = 500\<close>.
\<close>

theorem calculatePositionSize_ieee_cases:
  "calculatePositionSize_ieee capital entryPrice stopLoss =
     (if js_not capital \<or> js_not entryPrice \<or> js_not stopLoss \<or> entryPrice = stopLoss
      then 0
      else of_int \<lfloor>fdiv (fmul (num capital) (double (1 / 100)))
                         \<bar>fsub (num entryPrice) (num stopLoss)\<bar>\<rfloor>)
   \<and> calculatePositionSize_ieee (Some 100000) (Some 100) (Some 98) = 500"
proof
  show "calculatePositionSize_ieee capital entryPrice stopLoss =
     (if js_not capital \<or> js_not entryPrice \<or> js_not stopLoss \<or> entryPrice = stopLoss
      then 0
      else of_int \<lfloor>fdiv (fmul (num capital) (double (1 / 100)))
                         \<bar>fsub (num entryPrice) (num stopLoss)\<bar>\<rfloor>)"
  proof (cases "js_not capital \<or> js_not entryPrice \<or> js_not stopLoss")
    case True
    then show ?thesis unfolding calculatePositionSize_ieee_def by auto
  next
    case False
    then obtain c e s where args: "capital = Some c" "entryPrice = Some e" "stopLoss = Some s"
      by (auto simp: js_not_Some_iff)
    show ?thesis
    proof (cases "e = s")
      case True
      with False args show ?thesis
        by (simp add: calculatePositionSize_ieee_def fsub_eq_0_iff)
    next
      case False
      with \<open>\<not> (js_not capital \<or> js_not entryPrice \<or> js_not stopLoss)\<close> args
      show ?thesis by (simp add: calculatePositionSize_ieee_def fsub_eq_0_iff)
    qed
  qed
next
  show "calculatePositionSize_ieee (Some 100000) (Some 100) (Some 98) = 500"
    by (simp add: calculatePositionSize_ieee_def double_0_01) (simp add: double_eval)
qed

text \<open>
  Where the rounding shows. With entry price 1.1 and stop 1 on a capital of 1000 the
  difference of the doubles is a little above 0.1 and the source returns 99, not the
  100 of exact arithmetic; with prices 66.42 and 62.6 on a capital of 91680 the rounded
  quotient is exactly 240 and the source returns 240, while the exact quotient of the
  same doubles is below 240.
\<close>

lemma calculatePositionSize_ieee_rounding_examples:
  "calculatePositionSize_ieee (Some 1000) (Some (double (11 / 10))) (Some 1) = 99"
  "calculatePositionSize (Some 1000) (Some (11 / 10)) (Some 1) = 100"
  "calculatePositionSize_ieee (Some 91680) (Some (double (6642 / 100)))
     (Some (double (626 / 10))) = 240"
  "calculatePositionSize (Some 91680) (Some (double (6642 / 100)))
     (Some (double (626 / 10))) = 239"
proof -
  show "calculatePositionSize_ieee (Some 1000) (Some (double (11 / 10))) (Some 1) = 99"
    by (simp add: calculatePositionSize_ieee_def double_0_01 double_1_1)
       (simp add: double_eval)
  show "calculatePositionSize (Some 1000) (Some (11 / 10)) (Some 1) = 100"
    by (simp add: calculatePositionSize_def)
  have a: "double (3321 / 50) = 4673891988280443 / 70368744177664"
    by (simp add: double_eval)
  have b: "double (313 / 5) = 8810166771043533 / 140737488355328"
    by (simp add: double_eval)
  show "calculatePositionSize_ieee (Some 91680) (Some (double (6642 / 100)))
      (Some (double (626 / 10))) = 240"
    by (simp add: calculatePositionSize_ieee_def double_0_01 a b) (simp add: double_eval)
  show "calculatePositionSize (Some 91680) (Some (double (6642 / 100)))
      (Some (double (626 / 10))) = 239"
    by (simp add: calculatePositionSize_def a b)
qed

text \<open>
  A negative capital is sized in doubles too: the product and the quotient keep their
  signs under rounding, and the floor of a negative number is a negative integer.
\<close>

lemma calculatePositionSize_ieee_negative_capital:
  assumes "capital < 0" and "entryPrice \<noteq> 0" and "stopLoss \<noteq> 0"
    and "entryPrice \<noteq> stopLoss"
  shows "\<exists>k::int. k < 0 \<and>
           calculatePositionSize_ieee (Some capital) (Some entryPrice) (Some stopLoss)
             = of_int k"
proof -
  let ?m = "fmul capital (double (1 / 100))"
  let ?r = "\<bar>fsub entryPrice stopLoss\<bar>"
  have "0 < double (1 / 100)" by (rule double_pos) simp
  then have "capital * double (1 / 100) < 0" using assms(1) by (simp add: mult_neg_pos)
  then have m: "?m < 0" unfolding fmul_def by (rule round_double_neg)
  have r: "0 < ?r" using assms(4) by (simp add: fsub_eq_0_iff)
  from m r have "?m / ?r < 0" by (simp add: divide_neg_pos)
  then have "fdiv ?m ?r < 0" unfolding fdiv_def by (rule round_double_neg)
  then have "\<lfloor>fdiv ?m ?r\<rfloor> < 0" by simp
  moreover have "calculatePositionSize_ieee (Some capital) (Some entryPrice) (Some stopLoss)
      = of_int \<lfloor>fdiv ?m ?r\<rfloor>"
    using assms r by (simp add: calculatePositionSize_ieee_def Let_def)
  ultimately show ?thesis by blast
qed

subsection \<open>The risk budget in doubles\<close>

text \<open>Rounding raises a positive number by at most a relative \<open>2^-53\<close>.\<close>

lemma round_double_upper:
  assumes "0 < x"
  shows "round_double x \<le> x * (1 + 1 / 2 ^ 53)"
proof -
  let ?u = "pow2 (binade x - 52)"
  have "?u * 2 ^ 52 \<le> x" unfolding pow2_diff by (rule binade_lower [OF assms])
  then have "?u \<le> x / 2 ^ 52" by (simp add: pos_le_divide_eq)
  then have half: "?u / 2 \<le> x / 2 ^ 53" by simp
  have "\<bar>round_double x - x\<bar> \<le> pow2 (binade \<bar>x\<bar> - 52) / 2"
    using assms by (intro round_double_error) simp
  moreover have "\<bar>x\<bar> = x" using assms by simp
  ultimately have "\<bar>round_double x - x\<bar> \<le> ?u / 2" by simp
  then have "round_double x - x \<le> ?u / 2" by linarith
  with half have "round_double x \<le> x + x / 2 ^ 53" by linarith
  also have "x + x / 2 ^ 53 = x * (1 + 1 / 2 ^ 53)" by (simp add: distrib_left)
  finally show ?thesis .
qed

text \<open>
  In doubles the position times the risk per share stays within the budget up to that
  rounding: the floor never adds to the rounded quotient, and the rounded quotient is
  above the exact one by at most a relative \<open>2^-53\<close>.
\<close>

lemma calculatePositionSize_ieee_within_budget:
  assumes "0 < capital" and "entryPrice \<noteq> 0" and "stopLoss \<noteq> 0"
    and "entryPrice \<noteq> stopLoss"
  shows "calculatePositionSize_ieee (Some capital) (Some entryPrice) (Some stopLoss)
           * \<bar>fsub entryPrice stopLoss\<bar>
         \<le> fmul capital (double (1 / 100)) * (1 + 1 / 2 ^ 53)"
proof -
  let ?m = "fmul capital (double (1 / 100))"
  let ?r = "\<bar>fsub entryPrice stopLoss\<bar>"
  have "0 < double (1 / 100)" by (rule double_pos) simp
  then have "0 < capital * double (1 / 100)" using assms(1) by simp
  then have m: "0 < ?m" unfolding fmul_def by (rule round_double_pos)
  have r: "0 < ?r" using assms(4) by (simp add: fsub_eq_0_iff)
  from m r have quot: "0 < ?m / ?r" by simp
  have size: "calculatePositionSize_ieee (Some capital) (Some entryPrice) (Some stopLoss)
      = of_int \<lfloor>fdiv ?m ?r\<rfloor>"
    using assms r by (simp add: calculatePositionSize_ieee_def Let_def)
  have "of_int \<lfloor>fdiv ?m ?r\<rfloor> \<le> fdiv ?m ?r" by (rule of_int_floor_le)
  also have "fdiv ?m ?r \<le> ?m / ?r * (1 + 1 / 2 ^ 53)"
    unfolding fdiv_def using quot by (rule round_double_upper)
  finally have "of_int \<lfloor>fdiv ?m ?r\<rfloor> * ?r \<le> ?m / ?r * (1 + 1 / 2 ^ 53) * ?r"
    using r by (simp only: mult_le_cancel_right_pos)
  also have "?m / ?r * (1 + 1 / 2 ^ 53) * ?r = ?m * (1 + 1 / 2 ^ 53)"
    using r by simp
  finally show ?thesis using size by simp
qed


subsection \<open>Profit and loss in doubles\<close>

lemma forEach_target_ieee_append:
  "forEach_target_ieee position entryPrice idx targets scenarios =
     scenarios @
     map (\<lambda>(i, target).
            \<lparr>s_name = ''Target '' @ string_of_nat (i + 1),
             s_price = num target,
             s_quantity = position,
             s_totalValue = fmul position (num target),
             s_pnl = fmul position (fsub (num target) entryPrice),
             s_pnlPercent = fmul (fdiv (fsub (num target) entryPrice) entryPrice) 100,
             s_type = ''profit''\<rparr>)
       (filter (\<lambda>(i, target). qualifies entryPrice target) (enumerate idx targets))"
proof (induction targets arbitrary: idx scenarios)
  case Nil
  show ?case by simp
next
  case (Cons target rest)
  show ?case by (simp add: Cons.IH [of "Suc idx"] qualifies_def Let_def)
qed

text \<open>The result of a call whose arguments are all present and not zero.\<close>

lemma calculatePnL_ieee_quantity:
  assumes "capital \<noteq> 0" "entryPrice \<noteq> 0" "stopLoss \<noteq> 0" "quantity \<noteq> 0"
  shows "calculatePnL_ieee (Some capital) (Some entryPrice) targets (Some stopLoss)
           (Some quantity) =
     (if \<bar>fmul quantity (fsub entryPrice stopLoss)\<bar>
           > fmul (fmul capital (double (1 / 100))) (double (11 / 10)) then
        Inr (Rejected
          \<lparr>e_valid = False,
           e_error = ''RISK_TOO_HIGH'',
           e_message =
             ''Position size would risk '' @ rupee @
             toFixed \<bar>fmul quantity (fsub entryPrice stopLoss)\<bar> 0 @ '' ('' @
             toFixed (fmul (fdiv \<bar>fmul quantity (fsub entryPrice stopLoss)\<bar> capital) 100) 2 @
             ''%) - Max allowed: '' @ rupee @ toFixed (fmul capital (double (1 / 100))) 0 @
             '' (1%)''\<rparr>)
      else
        Inr (Assessed
          \<lparr>r_valid = True,
           r_capital = capital,
           r_position = quantity,
           r_entryPrice = entryPrice,
           r_stopLoss = stopLoss,
           r_maxRisk = fmul capital (double (1 / 100)),
           r_riskAmount = \<bar>fmul quantity (fsub entryPrice stopLoss)\<bar>,
           r_riskPercent = fmul (fdiv \<bar>fmul quantity (fsub entryPrice stopLoss)\<bar> capital) 100,
           r_scenarios =
             forEach_target_ieee quantity entryPrice 0 (case targets of Some ts \<Rightarrow> ts | None \<Rightarrow> [])
               [\<lparr>s_name = ''Worst Case (Stop Loss)'',
                 s_price = stopLoss,
                 s_quantity = quantity,
                 s_totalValue = fmul quantity stopLoss,
                 s_pnl = fmul quantity (fsub stopLoss entryPrice),
                 s_pnlPercent = fmul (fdiv (fsub stopLoss entryPrice) entryPrice) 100,
                 s_type = ''loss''\<rparr>]\<rparr>))"
  using assms
  by (simp add: calculatePnL_ieee_def calculatePnL_ieee_with_def Let_def split: option.split)

text \<open>Without a quantity the rounded function throws as the exact one does.\<close>

lemma calculatePnL_ieee_no_quantity_throws:
  assumes "\<not> js_not capital" "\<not> js_not entryPrice" "\<not> js_not stopLoss" "js_not quantity"
  shows "calculatePnL_ieee capital entryPrice targets stopLoss quantity = Inl TypeError"
  using assms by (simp add: calculatePnL_ieee_def calculatePnL_ieee_with_def module_this_def)

text \<open>
  Claim C2. For non-falsy capital, entryPrice, stopLoss and a supplied non-zero
  quantity: if \<open>|quantity * (entryPrice - stopLoss)| > capital * 0.01 * 1.1\<close>, both
  sides computed in doubles as the source computes them, the result is
  \<open>{valid: false, error: "RISK_TOO_HIGH"}\<close> with a message and without a scenario
  list; otherwise the result has \<open>valid: true\<close>. With capital 100000, entryPrice 100,
  stopLoss 98, quantity 5000 the risk amount is 10000, above the bound 1100, and the
  result is the \<open>RISK_TOO_HIGH\<close> object.
\<close>

theorem calculatePnL_ieee_risk_gate:
  assumes "capital \<noteq> 0" "entryPrice \<noteq> 0" "stopLoss \<noteq> 0" "quantity \<noteq> 0"
  shows
    "(\<bar>fmul quantity (fsub entryPrice stopLoss)\<bar>
        > fmul (fmul capital (double (1 / 100))) (double (11 / 10)) \<longrightarrow>
        (\<exists>msg. msg \<noteq> [] \<and>
           calculatePnL_ieee (Some capital) (Some entryPrice) targets (Some stopLoss)
             (Some quantity) =
             Inr (Rejected \<lparr>e_valid = False, e_error = ''RISK_TOO_HIGH'', e_message = msg\<rparr>)) \<and>
        scenarios_of
          (calculatePnL_ieee (Some capital) (Some entryPrice) targets (Some stopLoss)
             (Some quantity)) = None)
     \<and> (\<not> \<bar>fmul quantity (fsub entryPrice stopLoss)\<bar>
            > fmul (fmul capital (double (1 / 100))) (double (11 / 10)) \<longrightarrow>
        (\<exists>a. calculatePnL_ieee (Some capital) (Some entryPrice) targets (Some stopLoss)
                (Some quantity) = Inr (Assessed a) \<and> r_valid a))
     \<and> \<bar>fmul 5000 (fsub 100 98)\<bar> = 10000
     \<and> fmul (fmul 100000 (double (1 / 100))) (double (11 / 10)) = 1100
     \<and> calculatePnL_ieee (Some 100000) (Some 100) targets (Some 98) (Some 5000) =
         Inr (Rejected
           \<lparr>e_valid = False,
            e_error = ''RISK_TOO_HIGH'',
            e_message =
              ''Position size would risk '' @ rupee @ ''10000 (10.00%) - Max allowed: '' @
              rupee @ ''1000 (1%)''\<rparr>)"
proof (intro conjI impI)
  let ?res = "calculatePnL_ieee (Some capital) (Some entryPrice) targets (Some stopLoss)
      (Some quantity)"
  assume over: "\<bar>fmul quantity (fsub entryPrice stopLoss)\<bar>
      > fmul (fmul capital (double (1 / 100))) (double (11 / 10))"
  show "\<exists>msg. msg \<noteq> [] \<and>
      ?res = Inr (Rejected \<lparr>e_valid = False, e_error = ''RISK_TOO_HIGH'', e_message = msg\<rparr>)"
    using assms over by (simp add: calculatePnL_ieee_quantity)
  show "scenarios_of ?res = None"
    using assms over by (simp add: calculatePnL_ieee_quantity scenarios_of_def)
next
  let ?res = "calculatePnL_ieee (Some capital) (Some entryPrice) targets (Some stopLoss)
      (Some quantity)"
  assume "\<not> \<bar>fmul quantity (fsub entryPrice stopLoss)\<bar>
      > fmul (fmul capital (double (1 / 100))) (double (11 / 10))"
  then show "\<exists>a. ?res = Inr (Assessed a) \<and> r_valid a"
    using assms by (simp add: calculatePnL_ieee_quantity)
next
  have risk: "\<bar>fmul 5000 (fsub 100 98)\<bar> = 10000" by (simp add: double_eval)
  have maxRisk: "fmul 100000 (double (1 / 100)) = 1000"
    by (simp add: double_0_01) (simp add: double_eval)
  have scaled: "fmul 1000 (double (11 / 10)) = 1100"
    by (simp add: double_1_1) (simp add: double_eval)
  have bound: "fmul (fmul 100000 (double (1 / 100))) (double (11 / 10)) = 1100"
    by (simp add: maxRisk scaled)
  have percent: "fmul (fdiv 10000 100000) 100 = 10" by (simp add: double_eval)
  show "\<bar>fmul 5000 (fsub 100 98)\<bar> = 10000" by (rule risk)
  show "fmul (fmul 100000 (double (1 / 100))) (double (11 / 10)) = 1100" by (rule bound)
  have "calculatePnL_ieee (Some 100000) (Some 100) targets (Some 98) (Some 5000) =
      Inr (Rejected
        \<lparr>e_valid = False,
         e_error = ''RISK_TOO_HIGH'',
         e_message =
           ''Position size would risk '' @ rupee @ toFixed 10000 0 @ '' ('' @
           toFixed 10 2 @ ''%) - Max allowed: '' @ rupee @ toFixed 1000 0 @ '' (1%)''\<rparr>)"
    by (subst calculatePnL_ieee_quantity) (simp_all add: risk scaled maxRisk percent)
  moreover have "toFixed 10000 0 = ''10000''" by (simp add: js_string_eval)
  moreover have "toFixed 10 2 = ''10.00''" by (simp add: js_string_eval)
  moreover have "toFixed 1000 0 = ''1000''" by (simp add: js_string_eval)
  ultimately show "calculatePnL_ieee (Some 100000) (Some 100) targets (Some 98) (Some 5000) =
      Inr (Rejected
        \<lparr>e_valid = False,
         e_error = ''RISK_TOO_HIGH'',
         e_message =
           ''Position size would risk '' @ rupee @ ''10000 (10.00%) - Max allowed: '' @
           rupee @ ''1000 (1%)''\<rparr>)"
    by simp
qed

theorem calculatePnL_ieee_risk_gate_witness:
  "(\<exists>msg. msg \<noteq> [] \<and>
      calculatePnL_ieee (Some 1000) (Some (double (12029 / 25))) (Some [])
        (Some (double (12024 / 25))) (Some 55) =
        Inr (Rejected \<lparr>e_valid = False, e_error = ''RISK_TOO_HIGH'', e_message = msg\<rparr>))
   \<and> (\<exists>a. calculatePnL_ieee (Some 74000) (Some (double (2103 / 50))) (Some [])
              (Some (double (3799 / 100))) (Some 200) = Inr (Assessed a) \<and> r_valid a)"
proof
  have entry: "double (12029 / 25) = 8464656237131203 / 17592186044416"
    by (simp add: double_eval)
  have stop: "double (12024 / 25) = 8461137799922319 / 17592186044416"
    by (simp add: double_eval)
  have over: "\<bar>fmul 55 (fsub (double (12029 / 25)) (double (12024 / 25)))\<bar>
      > fmul (fmul 1000 (double (1 / 100))) (double (11 / 10))"
    by (simp add: entry stop double_0_01 double_1_1) (simp add: double_eval)
  show "\<exists>msg. msg \<noteq> [] \<and>
      calculatePnL_ieee (Some 1000) (Some (double (12029 / 25))) (Some [])
        (Some (double (12024 / 25))) (Some 55) =
        Inr (Rejected \<lparr>e_valid = False, e_error = ''RISK_TOO_HIGH'', e_message = msg\<rparr>)"
    using calculatePnL_ieee_risk_gate
      [of 1000 "double (12029 / 25)" "double (12024 / 25)" 55 "Some []"] over
    by (simp add: entry stop)
next
  have entry: "double (2103 / 50) = 739927345028137 / 17592186044416"
    by (simp add: double_eval)
  have stop: "double (3799 / 100) = 5346617182618911 / 140737488355328"
    by (simp add: double_eval)
  have within: "\<not> \<bar>fmul 200 (fsub (double (2103 / 50)) (double (3799 / 100)))\<bar>
      > fmul (fmul 74000 (double (1 / 100))) (double (11 / 10))"
    by (simp add: entry stop double_0_01 double_1_1) (simp add: double_eval)
  show "\<exists>a. calculatePnL_ieee (Some 74000) (Some (double (2103 / 50))) (Some [])
      (Some (double (3799 / 100))) (Some 200) = Inr (Assessed a) \<and> r_valid a"
    using calculatePnL_ieee_risk_gate
      [of 74000 "double (2103 / 50)" "double (3799 / 100)" 200 "Some []"] within
    by (simp add: entry stop)
qed

text \<open>
  Where the rounding shows at the threshold. With capital 1000, prices 481.16 and
  480.96 and quantity 55 the exact risk is 11, equal to the bound, but the doubles give
  a risk a little above 11 and the source rejects the position. With capital 74000,
  prices 42.06 and 37.99 and quantity 200 the doubles give the risk 814 against a bound
  a little above 814 and the source accepts the position, while the exact product of the
  same doubles is above 814.
\<close>

lemma calculatePnL_threshold_examples:
  "scenarios_of (calculatePnL_ieee (Some 1000) (Some (double (12029 / 25))) (Some [])
     (Some (double (12024 / 25))) (Some 55)) = None"
  "scenarios_of (calculatePnL (Some 1000) (Some (12029 / 25)) (Some [])
     (Some (12024 / 25)) (Some 55)) \<noteq> None"
  "scenarios_of (calculatePnL_ieee (Some 74000) (Some (double (2103 / 50))) (Some [])
     (Some (double (3799 / 100))) (Some 200)) \<noteq> None"
  "scenarios_of (calculatePnL (Some 74000) (Some (double (2103 / 50))) (Some [])
     (Some (double (3799 / 100))) (Some 200)) = None"
proof -
  have e1: "double (12029 / 25) = 8464656237131203 / 17592186044416"
    by (simp add: double_eval)
  have s1: "double (12024 / 25) = 8461137799922319 / 17592186044416"
    by (simp add: double_eval)
  have e2: "double (2103 / 50) = 739927345028137 / 17592186044416"
    by (simp add: double_eval)
  have s2: "double (3799 / 100) = 5346617182618911 / 140737488355328"
    by (simp add: double_eval)
  have over: "\<bar>fmul 55 (fsub (double (12029 / 25)) (double (12024 / 25)))\<bar>
      > fmul (fmul 1000 (double (1 / 100))) (double (11 / 10))"
    by (simp add: e1 s1 double_0_01 double_1_1) (simp add: double_eval)
  have within: "\<not> \<bar>fmul 200 (fsub (double (2103 / 50)) (double (3799 / 100)))\<bar>
      > fmul (fmul 74000 (double (1 / 100))) (double (11 / 10))"
    by (simp add: e2 s2 double_0_01 double_1_1) (simp add: double_eval)
  show "scenarios_of (calculatePnL_ieee (Some 1000) (Some (double (12029 / 25))) (Some [])
      (Some (double (12024 / 25))) (Some 55)) = None"
    using over by (subst calculatePnL_ieee_quantity) (simp_all add: e1 s1 scenarios_of_def)
  show "scenarios_of (calculatePnL (Some 1000) (Some (12029 / 25)) (Some [])
      (Some (12024 / 25)) (Some 55)) \<noteq> None"
    by (subst calculatePnL_quantity) (simp_all add: scenarios_of_def)
  show "scenarios_of (calculatePnL_ieee (Some 74000) (Some (double (2103 / 50))) (Some [])
      (Some (double (3799 / 100))) (Some 200)) \<noteq> None"
    using within by (subst calculatePnL_ieee_quantity) (simp_all add: e2 s2 scenarios_of_def)
  show "scenarios_of (calculatePnL (Some 74000) (Some (double (2103 / 50))) (Some [])
      (Some (double (3799 / 100))) (Some 200)) = None"
    by (subst calculatePnL_quantity) (simp_all add: e2 s2 scenarios_of_def)
qed

text \<open>
  The scenario list in doubles: the same targets yield scenarios, in the same order and
  under the same labels, as in the exact model; the derived amounts are rounded.
\<close>

lemma calculatePnL_ieee_scenarios_by_index:
  assumes "capital \<noteq> 0" "entryPrice \<noteq> 0" "stopLoss \<noteq> 0" "quantity \<noteq> 0"
    and "\<not> \<bar>fmul quantity (fsub entryPrice stopLoss)\<bar>
           > fmul (fmul capital (double (1 / 100))) (double (11 / 10))"
  shows "map_option (map (\<lambda>s. (s_name s, s_price s, s_type s)))
           (scenarios_of
              (calculatePnL_ieee (Some capital) (Some entryPrice) (Some targets)
                 (Some stopLoss) (Some quantity)))
         = map_option (map (\<lambda>s. (s_name s, s_price s, s_type s)))
             (Some (scenarios_numbered_by_index quantity entryPrice stopLoss targets))"
  using assms
  by (simp add: calculatePnL_ieee_quantity scenarios_of_def forEach_target_ieee_append
      scenarios_numbered_by_index_def stop_scenario_def profit_scenario_def comp_def
      case_prod_unfold)

text \<open>
  With \<open>this\<close> bound to the \<open>riskManagement\<close> object the rounded function gives
  the values the specification lists for capital 100000, entry 100, stop 98, target 106.
\<close>

lemma calculatePnL_ieee_with_receiver_example:
  "calculatePnL_ieee_with ThisRiskManagement
     (Some 100000) (Some 100) (Some [Some 106]) (Some 98) None =
   Inr (Assessed
     \<lparr>r_valid = True, r_capital = 100000, r_position = 500, r_entryPrice = 100,
      r_stopLoss = 98, r_maxRisk = 1000, r_riskAmount = 1000, r_riskPercent = 1,
      r_scenarios =
        [\<lparr>s_name = ''Worst Case (Stop Loss)'', s_price = 98, s_quantity = 500,
          s_totalValue = 49000, s_pnl = - 1000, s_pnlPercent = - 2, s_type = ''loss''\<rparr>,
         \<lparr>s_name = ''Target 1'', s_price = 106, s_quantity = 500,
          s_totalValue = 53000, s_pnl = 3000, s_pnlPercent = 6, s_type = ''profit''\<rparr>]\<rparr>)"
proof -
  have maxRisk: "fmul 100000 (double (1 / 100)) = 1000"
    by (simp add: double_0_01) (simp add: double_eval)
  have scaled: "fmul 1000 (double (11 / 10)) = 1100"
    by (simp add: double_1_1) (simp add: double_eval)
  have size: "calculatePositionSize_ieee (Some 100000) (Some 100) (Some 98) = 500"
    by (simp add: calculatePositionSize_ieee_def maxRisk) (simp add: double_eval)
  have ops: "fsub 100 98 = 2" "fmul 500 2 = 1000" "fdiv 1000 100000 = double (1 / 100)"
    "fmul (double (1 / 100)) 100 = 1" "fmul 500 98 = 49000" "fsub 98 100 = - 2"
    "fmul 500 (- 2) = - 1000" "fdiv (- 2) 100 = - double (1 / 50)"
    "fmul (- double (1 / 50)) 100 = - 2" "fsub 106 100 = 6" "fmul 500 106 = 53000"
    "fmul 500 6 = 3000" "fdiv 6 100 = double (3 / 50)" "fmul (double (3 / 50)) 100 = 6"
    by (simp_all add: double_eval)
  show ?thesis
    by (simp add: calculatePnL_ieee_with_def size maxRisk scaled ops js_string_eval)
qed

subsection \<open>Risk/reward in doubles\<close>

text \<open>
  The ratio 199 / 200 is not a double; the nearest double lies below 0.995, and the
  source prints it as 0.99 where exact arithmetic would print 1.00.
\<close>

lemma calculateRiskReward_ieee_example:
  "calculateRiskReward_ieee (Some 1000) (Some 1199) (Some 800) = RRFixed ''0.99''"
  "calculateRiskReward (Some 1000) (Some 1199) (Some 800) = RRFixed ''1.00''"
proof -
  have ops: "fsub 1000 800 = 200" "fsub 1199 1000 = 199"
    "fdiv 199 200 = 8962163258467287 / 9007199254740992"
    by (simp_all add: double_eval)
  show "calculateRiskReward_ieee (Some 1000) (Some 1199) (Some 800) = RRFixed ''0.99''"
    by (simp add: calculateRiskReward_ieee_def ops) (simp add: js_string_eval)
  show "calculateRiskReward (Some 1000) (Some 1199) (Some 800) = RRFixed ''1.00''"
    by (simp add: calculateRiskReward_def js_string_eval)
qed

end
